theory Spec2Isabelle
  imports Complex_Main "HOL-Library.Word"
begin

text \<open>
  A model of the content script of the speech translator extension
  (\<open>src/content_script.ts\<close>, class \<open>SpeechTranslatorController\<close>): the controller's
  fields as a record, each handler as a function from the controller to the new
  controller and the list of what it does to the world outside (engine calls, messages,
  storage writes, timers). An \<open>async\<close> handler is split at its \<open>await\<close>: the part
  that runs up to it, and the part that runs when the promise settles, on whatever the
  controller is by then. The overlay element is modelled by what the controller reads
  and writes of it. \<open>console\<close> output and \<open>updateStatus\<close>, whose body is empty, are
  left out.
\<close>

section \<open>JavaScript strings\<close>

text \<open>
  A JavaScript string is a sequence of UTF-16 code units; \<open>length\<close> counts code units.
  String literals of the source that are plain ASCII are written with \<open>ascii\<close>.
\<close>

type_synonym codeunit = "16 word"
type_synonym jsstring = "codeunit list"

definition ascii :: "string \<Rightarrow> jsstring" where
  "ascii s = map of_char s"

text \<open>
  \<open>String.prototype.trim\<close> removes leading and trailing WhiteSpace and LineTerminator
  code points (ECMAScript: TAB, VT, FF, SP, NBSP, ZWNBSP, the Unicode space separators,
  LF, CR, LS, PS).
\<close>

definition isWhiteSpace :: "codeunit \<Rightarrow> bool" where
  "isWhiteSpace c \<longleftrightarrow>
     c = 0x09 \<or> c = 0x0A \<or> c = 0x0B \<or> c = 0x0C \<or> c = 0x0D \<or> c = 0x20 \<or>
     c = 0xA0 \<or> c = 0x1680 \<or> (0x2000 \<le> c \<and> c \<le> 0x200A) \<or> c = 0x2028 \<or>
     c = 0x2029 \<or> c = 0x202F \<or> c = 0x205F \<or> c = 0x3000 \<or> c = 0xFEFF"

definition trim :: "jsstring \<Rightarrow> jsstring" where
  "trim s = rev (dropWhile isWhiteSpace (rev (dropWhile isWhiteSpace s)))"

text \<open>\<open>s.split('-')[0]\<close>: the part of \<open>s\<close> before the first hyphen (all of \<open>s\<close> without one).\<close>

definition splitFirst :: "jsstring \<Rightarrow> jsstring" where
  "splitFirst s = takeWhile (\<lambda>c. c \<noteq> 0x2D) s"

text \<open>\<open>hay.includes(needle)\<close>: \<open>needle\<close> occurs in \<open>hay\<close> as a contiguous run.\<close>

definition startsWith :: "jsstring \<Rightarrow> jsstring \<Rightarrow> bool" where
  "startsWith hay needle \<longleftrightarrow> take (length needle) hay = needle"

fun js_includes :: "jsstring \<Rightarrow> jsstring \<Rightarrow> bool" where
  "js_includes [] needle = (needle = [])"
| "js_includes (c # cs) needle = (startsWith (c # cs) needle \<or> js_includes cs needle)"

section \<open>escapeHtml\<close>

text \<open>
  \<^verbatim>\<open>
  private escapeHtml(text: string): string {
    const div = document.createElement('div');
    div.textContent = text;
    return div.innerHTML;
  }
  \<close>
  Setting \<open>textContent\<close> replaces the children of the element by one text node holding
  the string (by nothing when the string is empty). Reading \<open>innerHTML\<close> serialises the
  children; a text node under a \<open>div\<close> is serialised by the HTML fragment serialisation
  algorithm's "escaping a string" steps, outside attribute mode: replace \<open>&\<close> by
  \<open>&amp;\<close>, then U+00A0 by \<open>&nbsp;\<close>, then \<open><\<close> by \<open>&lt;\<close> and \<open>>\<close> by \<open>&gt;\<close>.
\<close>

definition replaceAll :: "codeunit \<Rightarrow> jsstring \<Rightarrow> jsstring \<Rightarrow> jsstring" where
  "replaceAll c r s = concat (map (\<lambda>x. if x = c then r else [x]) s)"

definition escapeString :: "jsstring \<Rightarrow> jsstring" where
  "escapeString s =
     replaceAll 0x3E (ascii ''&gt;'')
       (replaceAll 0x3C (ascii ''&lt;'')
         (replaceAll 0xA0 (ascii ''&nbsp;'')
           (replaceAll 0x26 (ascii ''&amp;'') s)))"

definition setTextContent :: "jsstring \<Rightarrow> jsstring list" where
  "setTextContent text = (if text = [] then [] else [text])"

definition serializeChildren :: "jsstring list \<Rightarrow> jsstring" where
  "serializeChildren nodes = concat (map escapeString nodes)"

definition escapeHtml :: "jsstring \<Rightarrow> jsstring" where
  "escapeHtml text = serializeChildren (setTextContent text)"

text \<open>
  The replacement the specification describes: only \<open>&\<close>, \<open><\<close> and \<open>>\<close> are replaced.
\<close>

definition escapeHtml_spec :: "jsstring \<Rightarrow> jsstring" where
  "escapeHtml_spec s =
     replaceAll 0x3E (ascii ''&gt;'')
       (replaceAll 0x3C (ascii ''&lt;'')
         (replaceAll 0x26 (ascii ''&amp;'') s))"

text \<open>The replacement of all four characters in one pass, character by character.\<close>

definition escapeChar :: "codeunit \<Rightarrow> jsstring" where
  "escapeChar c =
     (if c = 0x26 then ascii ''&amp;''
      else if c = 0xA0 then ascii ''&nbsp;''
      else if c = 0x3C then ascii ''&lt;''
      else if c = 0x3E then ascii ''&gt;''
      else [c])"

section \<open>The overlay panel\<close>

text \<open>
  The blocks of the \<open>.st-list\<close> element. A block is the live block while it carries the
  class \<open>st-live\<close>. Its \<open>innerHTML\<close> is the fixed two-line template of
  \<open>displayBothLanguages\<close>; the two strings placed in the template are kept.
  CSS values and data attributes written by the controller are ASCII constants and are
  kept as HOL strings.
\<close>

record block =
  stLive :: bool
  marginBottom :: string
  borderBottom :: string
  paddingBottom :: string
  translatedHtml :: jsstring
  originalHtml :: jsstring

text \<open>
  The children of the panel: either plain text (after \<open>textContent = ...\<close>; the empty
  text for a fresh element) or the \<open>.st-container\<close> with its toggle button's label and
  the blocks of its \<open>.st-list\<close>.
\<close>

datatype content = TextContent jsstring | Container jsstring "block list"

datatype cssval = Css string | Px real

record overlay =
  parentNode :: bool
  content :: content
  styleLeft :: cssval
  styleTop :: cssval
  styleRight :: cssval
  styleBottom :: cssval
  styleMargin :: string
  styleWidth :: string
  styleMaxWidth :: string
  styleTransition :: string
  styleBorderColor :: string
  stSize :: "string option"

section \<open>The controller\<close>

record RecognitionConfig =
  inputLang :: jsstring
  outputLang :: jsstring

text \<open>The capture engine handle as \<open>startRecognition\<close> configures it.\<close>

record recognizer =
  lang :: jsstring
  continuous :: bool
  interimResults :: bool
  maxAlternatives :: nat

record controller =
  recognition :: "recognizer option"
  config :: "RecognitionConfig option"
  overlay :: "overlay option"
  isActive :: bool
  isDragging :: bool
  dragOffset :: "real \<times> real"
  clearTimer :: "nat option"
  lastLineKey :: "jsstring option"

text \<open>The field initialisers of \<open>SpeechTranslatorController\<close>.\<close>

definition initial :: controller where
  "initial = \<lparr> recognition = None, config = None, overlay = None, isActive = False,
     isDragging = False, dragOffset = (0, 0), clearTimer = None, lastLineKey = None \<rparr>"

text \<open>
  What a handler does to the world outside the controller: calls on the capture engine,
  messages on the runtime channel, storage writes and timers.
\<close>

datatype effect =
    EngineStart
  | EngineStop
  | SendTranslationRequest jsstring jsstring jsstring
  | SendError jsstring
  | SendStatusUpdate bool jsstring
  | StorageSetIsActive bool
  | SetTimeoutRestart nat
  | ClearTimeout nat
  | PreventDefault

subsection \<open>Timer and overlay helpers\<close>

text \<open>
  \<^verbatim>\<open>
  if (this.clearTimer) { clearTimeout(this.clearTimer); this.clearTimer = null; }
  \<close>
  A timer id is a number; the test is its truthiness, so the id 0 does not pass it.
\<close>

definition clearPendingTimer :: "controller \<Rightarrow> controller \<times> effect list" where
  "clearPendingTimer s =
     (case clearTimer s of
        None \<Rightarrow> (s, [])
      | Some t \<Rightarrow> if t \<noteq> 0 then (s\<lparr>clearTimer := None\<rparr>, [ClearTimeout t]) else (s, []))"

definition createOverlay :: "controller \<Rightarrow> controller" where
  "createOverlay s =
     (case overlay s of
        Some ov \<Rightarrow> s
      | None \<Rightarrow> s\<lparr>overlay := Some
          \<lparr> parentNode = True, content = TextContent [],
            styleLeft = Css ''0'', styleTop = Css [], styleRight = Css ''0'',
            styleBottom = Css ''80px'', styleMargin = ''0 auto'', styleWidth = ''100%'',
            styleMaxWidth = ''900px'',
            styleTransition = ''opacity 0.2s ease, transform 0.1s ease'',
            styleBorderColor = [], stSize = None \<rparr>\<rparr>)"

text \<open>
  \<^verbatim>\<open>
  if (this.overlay && this.overlay.parentNode) {
    this.overlay.parentNode.removeChild(this.overlay);
    this.overlay = null;
  }
  \<close>
\<close>

definition removeOverlay :: "controller \<Rightarrow> controller" where
  "removeOverlay s =
     (case overlay s of
        None \<Rightarrow> s
      | Some ov \<Rightarrow> if parentNode ov then s\<lparr>overlay := None\<rparr> else s)"

text \<open>\<open>updateOverlay\<close> is only ever called with \<open>isHtml\<close> left at its default \<open>false\<close>.\<close>

definition updateOverlay :: "controller \<Rightarrow> jsstring \<Rightarrow> string \<Rightarrow> controller" where
  "updateOverlay s text borderColor =
     (case overlay s of
        None \<Rightarrow> s
      | Some ov \<Rightarrow>
          s\<lparr>overlay := Some (ov\<lparr>content := TextContent text, styleBorderColor := borderColor\<rparr>)\<rparr>)"

text \<open>
  \<^verbatim>\<open>
  private cleanup(): void {
    if (this.clearTimer) { clearTimeout(this.clearTimer); this.clearTimer = null; }
    ... removeEventListener calls ...
    this.removeOverlay();
    this.isActive = false;
    this.config = null;
    this.lastLineKey = null;
  }
  \<close>
  The \<open>removeEventListener\<close> calls change nothing the controller can see.
\<close>

definition cleanup :: "controller \<Rightarrow> controller \<times> effect list" where
  "cleanup s =
     (let (s1, effs) = clearPendingTimer s;
          s2 = removeOverlay s1
      in (s2\<lparr>isActive := False, config := None, lastLineKey := None\<rparr>, effs))"

subsection \<open>displayBothLanguages\<close>

definition toggleMaxIcon :: jsstring where
  "toggleMaxIcon = [0x2922]"

definition toggleMinIcon :: jsstring where
  "toggleMinIcon = [0x2921]"

definition newLiveBlock :: block where
  "newLiveBlock = \<lparr> stLive = True, marginBottom = ''8px'',
     borderBottom = ''1px solid rgba(255,255,255,0.15)'', paddingBottom = ''6px'',
     translatedHtml = [], originalHtml = [] \<rparr>"

text \<open>
  \<open>querySelector('.st-live')\<close> finds the first block with the class; when there is none
  a new live block is inserted before the first child of the list.
\<close>

definition ensureLive :: "block list \<Rightarrow> block list" where
  "ensureLive bs = (if list_ex stLive bs then bs else newLiveBlock # bs)"

text \<open>\<open>liveBlock.innerHTML = ...\<close> on the block that \<open>querySelector\<close> found.\<close>

fun setLiveHtml :: "jsstring \<Rightarrow> jsstring \<Rightarrow> block list \<Rightarrow> block list" where
  "setLiveHtml t o' [] = []"
| "setLiveHtml t o' (b # bs) =
     (if stLive b then b\<lparr>translatedHtml := escapeHtml t, originalHtml := escapeHtml o'\<rparr> # bs
      else b # setLiveHtml t o' bs)"

text \<open>
  The history block: a deep clone of the live block without the class \<open>st-live\<close> and
  with three style properties changed.
\<close>

definition historyBlock :: "block \<Rightarrow> block" where
  "historyBlock b = b\<lparr>stLive := False, borderBottom := ''none'', paddingBottom := ''0'',
     marginBottom := ''6px''\<rparr>"

text \<open>
  The clone is inserted before the live block's next sibling, or appended when the live
  block is the last child: in both cases directly after the live block.
\<close>

fun insertHistory :: "block list \<Rightarrow> block list" where
  "insertHistory [] = []"
| "insertHistory (b # bs) =
     (if stLive b then b # historyBlock b # bs else b # insertHistory bs)"

text \<open>
  \<^verbatim>\<open>
  private displayBothLanguages(translatedText, originalText, isFinal): void {
    if (this.clearTimer) { clearTimeout(this.clearTimer); this.clearTimer = null; }
    if (!this.overlay) { return; }
    if (!this.overlay.querySelector('.st-container')) {
      this.overlay.innerHTML = ... container with the two buttons and an empty .st-list ...
    }
    const list = this.overlay.querySelector('.st-list');
    if (!list) return;
    let liveBlock = this.overlay.querySelector('.st-live');
    if (!liveBlock) {
      liveBlock = document.createElement('div');
      liveBlock.className = 'st-live'; ... three style properties ...
      list.insertBefore(liveBlock, list.firstChild);
    }
    liveBlock.innerHTML = ... ${this.escapeHtml(translatedText)} ...
                          ... ${this.escapeHtml(originalText)} ...;
    if (isFinal) {
      const currentKey = `${translatedText}|||${originalText}`;
      if (this.lastLineKey !== currentKey) {
        this.lastLineKey = currentKey;
        const historyBlock = liveBlock.cloneNode(true);
        historyBlock.classList.remove('st-live'); ... three style properties ...
        if (liveBlock.nextSibling) { list.insertBefore(historyBlock, liveBlock.nextSibling); }
        else { list.appendChild(historyBlock); }
      }
    }
  }
  \<close>
  A container always has its \<open>.st-list\<close>, so the second early return is never taken.
  The two texts are escaped before they enter the markup, so the markup of a block
  never adds an element of its own to the list.
\<close>

definition lineKey :: "jsstring \<Rightarrow> jsstring \<Rightarrow> jsstring" where
  "lineKey translatedText originalText = translatedText @ ascii ''|||'' @ originalText"

definition displayBothLanguages ::
  "controller \<Rightarrow> jsstring \<Rightarrow> jsstring \<Rightarrow> bool \<Rightarrow> controller \<times> effect list" where
  "displayBothLanguages s translatedText originalText isFinal =
     (let (s1, effs) = clearPendingTimer s in
      case overlay s1 of
        None \<Rightarrow> (s1, effs)
      | Some ov \<Rightarrow>
          let (label, bs) = (case content ov of
                               Container l bs \<Rightarrow> (l, bs)
                             | TextContent _ \<Rightarrow> (toggleMaxIcon, []));
              bs1 = setLiveHtml translatedText originalText (ensureLive bs);
              currentKey = lineKey translatedText originalText;
              push = (isFinal \<and> lastLineKey s1 \<noteq> Some currentKey);
              bs2 = (if push then insertHistory bs1 else bs1);
              key = (if push then Some currentKey else lastLineKey s1)
          in (s1\<lparr>overlay := Some (ov\<lparr>content := Container label bs2\<rparr>), lastLineKey := key\<rparr>,
              effs))"

text \<open>The blocks of the panel, its live blocks and its history entries.\<close>

definition blocksOf :: "controller \<Rightarrow> block list" where
  "blocksOf s =
     (case overlay s of
        None \<Rightarrow> []
      | Some ov \<Rightarrow> (case content ov of Container l bs \<Rightarrow> bs | TextContent _ \<Rightarrow> []))"

definition liveBlocks :: "controller \<Rightarrow> block list" where
  "liveBlocks s = filter stLive (blocksOf s)"

definition historyEntries :: "controller \<Rightarrow> block list" where
  "historyEntries s = filter (\<lambda>b. \<not> stLive b) (blocksOf s)"

subsection \<open>Dragging and resizing\<close>

text \<open>
  The handlers read the pointer position from the event and the panel's and the window's
  geometry from the page; these readings are arguments here. They are JavaScript
  numbers, taken as reals.
  \<^verbatim>\<open>
  private handleDragMove(e: MouseEvent): void {
    if (!this.isDragging || !this.overlay) return;
    e.preventDefault();
    let newLeft = e.clientX - this.dragOffset.x;
    let newTop = e.clientY - this.dragOffset.y;
    const maxLeft = window.innerWidth - this.overlay.offsetWidth;
    const maxTop = window.innerHeight - this.overlay.offsetHeight;
    newLeft = Math.max(0, Math.min(newLeft, maxLeft));
    newTop = Math.max(0, Math.min(newTop, maxTop));
    this.overlay.style.left = `${newLeft}px`;
    this.overlay.style.top = `${newTop}px`;
    this.overlay.style.bottom = 'auto';
    this.overlay.style.right = 'auto';
  }
  \<close>
\<close>

definition handleDragStart ::
  "controller \<Rightarrow> real \<Rightarrow> real \<Rightarrow> real \<Rightarrow> real \<Rightarrow> controller" where
  "handleDragStart s clientX clientY rectLeft rectTop =
     (case overlay s of
        None \<Rightarrow> s
      | Some ov \<Rightarrow>
          s\<lparr>isDragging := True,
            dragOffset := (clientX - rectLeft, clientY - rectTop),
            overlay := Some (ov\<lparr>styleTransition := ''none''\<rparr>)\<rparr>)"

definition handleDragMove ::
  "controller \<Rightarrow> real \<Rightarrow> real \<Rightarrow> real \<Rightarrow> real \<Rightarrow> real \<Rightarrow> real
     \<Rightarrow> controller \<times> effect list" where
  "handleDragMove s clientX clientY innerWidth innerHeight offsetWidth offsetHeight =
     (case overlay s of
        None \<Rightarrow> (s, [])
      | Some ov \<Rightarrow>
          if \<not> isDragging s then (s, [])
          else
            let newLeft = clientX - fst (dragOffset s);
                newTop = clientY - snd (dragOffset s);
                maxLeft = innerWidth - offsetWidth;
                maxTop = innerHeight - offsetHeight;
                newLeft = max 0 (min newLeft maxLeft);
                newTop = max 0 (min newTop maxTop)
            in (s\<lparr>overlay := Some (ov\<lparr>styleLeft := Px newLeft, styleTop := Px newTop,
                     styleBottom := Css ''auto'', styleRight := Css ''auto''\<rparr>)\<rparr>,
                [PreventDefault]))"

definition handleDragEnd :: "controller \<Rightarrow> controller" where
  "handleDragEnd s =
     (case overlay s of
        None \<Rightarrow> s
      | Some ov \<Rightarrow>
          s\<lparr>isDragging := False,
            overlay := Some (ov\<lparr>styleTransition := ''opacity 0.2s ease''\<rparr>)\<rparr>)"

text \<open>The toggle button lives in the container; its label is the container's.\<close>

fun setToggleLabel :: "jsstring \<Rightarrow> content \<Rightarrow> content" where
  "setToggleLabel l (Container _ bs) = Container l bs"
| "setToggleLabel l (TextContent t) = TextContent t"

definition toggleOverlaySize :: "controller \<Rightarrow> controller" where
  "toggleOverlaySize s =
     (case overlay s of
        None \<Rightarrow> s
      | Some ov \<Rightarrow>
          if stSize ov = Some ''max''
          then s\<lparr>overlay := Some (ov\<lparr>styleLeft := Css ''0'', styleRight := Css ''0'',
                 styleMargin := ''0 auto'', styleWidth := ''100%'', styleMaxWidth := ''900px'',
                 stSize := Some ''min'', content := setToggleLabel toggleMaxIcon (content ov)\<rparr>)\<rparr>
          else s\<lparr>overlay := Some (ov\<lparr>styleLeft := Css ''0'', styleRight := Css ''0'',
                 styleMargin := ''0'', styleWidth := ''100%'', styleMaxWidth := ''100%'',
                 stSize := Some ''max'', content := setToggleLabel toggleMinIcon (content ov)\<rparr>)\<rparr>)"

subsection \<open>Starting and stopping\<close>

definition sendErrorMessage :: "jsstring \<Rightarrow> effect list" where
  "sendErrorMessage error = [SendError error]"

text \<open>The label \<open>Ready\<close> preceded by the microphone sign U+1F3A4 (a surrogate pair).\<close>

definition readyLabel :: jsstring where
  "readyLabel = [0xD83C, 0xDFA4] @ ascii '' Ready''"

text \<open>
  \<open>supported\<close> tells whether the window has \<open>SpeechRecognition\<close> or
  \<open>webkitSpeechRecognition\<close>; without either the source throws and its own
  \<open>catch\<close> reports the error and cleans up. Creating and starting a fresh engine
  object is taken not to throw.
  \<^verbatim>\<open>
  try {
    if (!('webkitSpeechRecognition' in window) && !('SpeechRecognition' in window)) {
      throw new Error('Speech Recognition API is not supported in this browser');
    }
    this.config = config;
    this.isActive = true;
    this.createOverlay();
    this.recognition = new SpeechRecognitionAPI();
    this.recognition.lang = config.inputLang;
    this.recognition.continuous = true;
    this.recognition.interimResults = true;
    this.recognition.maxAlternatives = 1;
    ... the four event handlers ...
    this.recognition.start();
    this.updateStatus(RecognitionStatus.LISTENING);
    this.updateOverlay(... 'Ready', '#4caf50');
  } catch (error) {
    this.sendErrorMessage(error instanceof Error ? error.message : 'Unknown error');
    this.cleanup();
  }
  \<close>
\<close>

definition startRecognition ::
  "controller \<Rightarrow> bool \<Rightarrow> RecognitionConfig \<Rightarrow> controller \<times> effect list" where
  "startRecognition s supported cfg =
     (if \<not> supported
      then (let (s', effs) = cleanup s
            in (s', sendErrorMessage
                      (ascii ''Speech Recognition API is not supported in this browser'') @ effs))
      else
        let s1 = s\<lparr>config := Some cfg, isActive := True\<rparr>;
            s2 = createOverlay s1;
            s3 = s2\<lparr>recognition := Some \<lparr> lang = inputLang cfg, continuous = True,
                   interimResults = True, maxAlternatives = 1 \<rparr>\<rparr>
        in (updateOverlay s3 readyLabel ''#4caf50'', [EngineStart]))"

text \<open>
  \<^verbatim>\<open>
  private async stopRecognition(): Promise<void> {
    this.isActive = false;
    if (this.recognition) { this.recognition.stop(); this.recognition = null; }
    this.cleanup();
    this.updateStatus(RecognitionStatus.IDLE);
    chrome.storage.local.set({ [StorageKey.IS_ACTIVE]: false });
    chrome.runtime.sendMessage({ type: MessageType.STATUS_UPDATE,
        data: { isActive: false, status: 'Recognition Stopped' } }).catch(() => {});
  }
  \<close>
  There is no \<open>await\<close> in the body: a caller that does not await it still has all of
  it run at once.
\<close>

definition stopRecognition :: "controller \<Rightarrow> controller \<times> effect list" where
  "stopRecognition s =
     (let s1 = s\<lparr>isActive := False\<rparr>;
          (s2, e1) = (case recognition s1 of
                        Some r \<Rightarrow> (s1\<lparr>recognition := None\<rparr>, [EngineStop])
                      | None \<Rightarrow> (s1, []));
          (s3, e2) = cleanup s2
      in (s3, e1 @ e2 @
            [StorageSetIsActive False, SendStatusUpdate False (ascii ''Recognition Stopped'')]))"

datatype MessageType =
    START_RECOGNITION | STOP_RECOGNITION | STATUS_UPDATE | RECOGNITION_RESULT
  | TRANSLATION_RESULT | ERROR

record ExtensionMessage =
  msgType :: MessageType
  msgConfig :: "RecognitionConfig option"

definition handleMessage ::
  "controller \<Rightarrow> bool \<Rightarrow> ExtensionMessage \<Rightarrow> controller \<times> effect list" where
  "handleMessage s supported message =
     (case msgType message of
        START_RECOGNITION \<Rightarrow>
          (case msgConfig message of
             Some cfg \<Rightarrow> startRecognition s supported cfg
           | None \<Rightarrow> (s, []))
      | STOP_RECOGNITION \<Rightarrow> stopRecognition s
      | _ \<Rightarrow> (s, []))"

subsection \<open>Capture engine errors and end\<close>

definition errorMessageFor :: "jsstring \<Rightarrow> jsstring" where
  "errorMessageFor error =
     (if error = ascii ''no-speech'' then ascii ''No speech detected''
      else if error = ascii ''audio-capture'' then ascii ''Microphone not available''
      else if error = ascii ''not-allowed'' then ascii ''Microphone permission denied''
      else if error = ascii ''network'' then ascii ''Network error''
      else ascii ''Error: '' @ error)"

text \<open>
  \<^verbatim>\<open>
  if (this.isActive && (event.error === 'no-speech' || event.error === 'aborted')) {
    setTimeout(() => {
      if (this.recognition && this.isActive) { this.recognition.start(); }
    }, 1000);
  } else {
    this.sendErrorMessage(errorMessage);
  }
  \<close>
\<close>

definition handleRecognitionError :: "controller \<Rightarrow> jsstring \<Rightarrow> controller \<times> effect list" where
  "handleRecognitionError s error =
     (let errorMessage = errorMessageFor error in
      if isActive s \<and> (error = ascii ''no-speech'' \<or> error = ascii ''aborted'')
      then (s, [SetTimeoutRestart 1000])
      else (s, sendErrorMessage errorMessage))"

text \<open>The callback that the timer of \<open>handleRecognitionError\<close> runs after its delay.\<close>

definition restartCallback :: "controller \<Rightarrow> controller \<times> effect list" where
  "restartCallback s =
     (if recognition s \<noteq> None \<and> isActive s then (s, [EngineStart]) else (s, []))"

text \<open>
  \<^verbatim>\<open>
  private handleRecognitionEnd(): void {
    if (!this.isActive) { this.cleanup(); }
  }
  \<close>
\<close>

definition handleRecognitionEnd :: "controller \<Rightarrow> controller \<times> effect list" where
  "handleRecognitionEnd s = (if \<not> isActive s then cleanup s else (s, []))"

section \<open>Values on the messaging channel\<close>

text \<open>
  The response to \<open>chrome.runtime.sendMessage\<close> is untyped (\<open>any\<close>). A number is kept as
  the two things the controller can observe of it: whether it is truthy (neither 0 nor
  NaN) and its \<open>ToString\<close> rendering. An object is the list of its own properties.
\<close>

datatype jsval =
    Undefined
  | Null
  | Bool bool
  | Num bool jsstring
  | Str jsstring
  | Arr "jsval list"
  | Obj "(jsstring \<times> jsval) list"

text \<open>A thrown value: a \<open>TypeError\<close> of the engine, or an \<open>Error\<close> with its message.\<close>

datatype exn = TypeError | Error jsstring

fun truthy :: "jsval \<Rightarrow> bool" where
  "truthy Undefined = False"
| "truthy Null = False"
| "truthy (Bool b) = b"
| "truthy (Num nz r) = nz"
| "truthy (Str s) = (s \<noteq> [])"
| "truthy (Arr xs) = True"
| "truthy (Obj kvs) = True"

fun isArray :: "jsval \<Rightarrow> bool" where
  "isArray (Arr xs) = True"
| "isArray v = False"

text \<open>
  Reading one of the properties \<open>success\<close>, \<open>error\<close>, \<open>data\<close>, \<open>sentences\<close>, \<open>trans\<close>:
  a \<open>TypeError\<close> on \<open>undefined\<close> and \<open>null\<close>, the own property of an object, and
  \<open>undefined\<close> on every other value (arrays and primitives have no such property).
\<close>

fun getProp :: "jsval \<Rightarrow> jsstring \<Rightarrow> exn + jsval" where
  "getProp Undefined k = Inl TypeError"
| "getProp Null k = Inl TypeError"
| "getProp (Obj kvs) k = Inr (case map_of kvs k of None \<Rightarrow> Undefined | Some v \<Rightarrow> v)"
| "getProp v k = Inr Undefined"

text \<open>Reading index 0: the first element of an array, the first code unit of a string.\<close>

fun getIndex0 :: "jsval \<Rightarrow> exn + jsval" where
  "getIndex0 Undefined = Inl TypeError"
| "getIndex0 Null = Inl TypeError"
| "getIndex0 (Arr []) = Inr Undefined"
| "getIndex0 (Arr (x # xs)) = Inr x"
| "getIndex0 (Str []) = Inr Undefined"
| "getIndex0 (Str (c # cs)) = Inr (Str [c])"
| "getIndex0 (Obj kvs) = Inr (case map_of kvs (ascii ''0'') of None \<Rightarrow> Undefined | Some v \<Rightarrow> v)"
| "getIndex0 v = Inr Undefined"

fun joinWith :: "jsstring \<Rightarrow> jsstring list \<Rightarrow> jsstring" where
  "joinWith sep [] = []"
| "joinWith sep [x] = x"
| "joinWith sep (x # y # ys) = x @ sep @ joinWith sep (y # ys)"

text \<open>
  \<open>ToString\<close>, and \<open>Array.prototype.join\<close>, which renders \<open>undefined\<close> and \<open>null\<close>
  elements as the empty string and every other element by \<open>ToString\<close>.
\<close>

fun toString :: "jsval \<Rightarrow> jsstring" where
  "toString Undefined = ascii ''undefined''"
| "toString Null = ascii ''null''"
| "toString (Bool b) = (if b then ascii ''true'' else ascii ''false'')"
| "toString (Num nz r) = r"
| "toString (Str s) = s"
| "toString (Arr xs) =
     joinWith (ascii '','')
       (map (\<lambda>v. case v of Undefined \<Rightarrow> [] | Null \<Rightarrow> [] | _ \<Rightarrow> toString v) xs)"
| "toString (Obj kvs) = ascii ''[object Object]''"

definition elemString :: "jsval \<Rightarrow> jsstring" where
  "elemString v = (case v of Undefined \<Rightarrow> [] | Null \<Rightarrow> [] | _ \<Rightarrow> toString v)"

definition js_join :: "jsstring \<Rightarrow> jsval list \<Rightarrow> jsstring" where
  "js_join sep vs = joinWith sep (map elemString vs)"

text \<open>\<open>xs.map(f)\<close> where \<open>f\<close> may throw: the first exception ends the loop.\<close>

fun mapE :: "('a \<Rightarrow> exn + 'b) \<Rightarrow> 'a list \<Rightarrow> exn + 'b list" where
  "mapE f [] = Inr []"
| "mapE f (x # xs) =
     (case f x of
        Inl e \<Rightarrow> Inl e
      | Inr y \<Rightarrow> (case mapE f xs of Inl e \<Rightarrow> Inl e | Inr ys \<Rightarrow> Inr (y # ys)))"

section \<open>translateText\<close>

record TranslationResult =
  originalText :: jsstring
  translatedText :: jsstring
  sourceLang :: jsstring
  targetLang :: jsstring
  timestamp :: nat

text \<open>What \<open>await chrome.runtime.sendMessage(...)\<close> gives: a value, or a thrown \<open>Error\<close>.\<close>

datatype sendResult = Resolved jsval | Rejected jsstring

text \<open>\<open>(sentence) => sentence.trans || ''\<close> and \<open>(item) => item[0] || ''\<close>.\<close>

definition sentenceTrans :: "jsval \<Rightarrow> exn + jsval" where
  "sentenceTrans sentence =
     (case getProp sentence (ascii ''trans'') of
        Inl e \<Rightarrow> Inl e
      | Inr v \<Rightarrow> Inr (if truthy v then v else Str []))"

definition itemFirst :: "jsval \<Rightarrow> exn + jsval" where
  "itemFirst item =
     (case getIndex0 item of
        Inl e \<Rightarrow> Inl e
      | Inr v \<Rightarrow> Inr (if truthy v then v else Str []))"

text \<open>
  \<^verbatim>\<open>
  let translatedText = '';
  if (data.sentences && Array.isArray(data.sentences)) {
    translatedText = data.sentences.map((sentence: any) => sentence.trans || '').join('');
  } else if (Array.isArray(data) && data.length > 0) {
    if (Array.isArray(data[0])) {
      translatedText = data[0].map((item: any) => item[0] || '')
        .filter((text: string) => text).join('');
    }
  }
  \<close>
\<close>

definition extractTranslatedText :: "jsval \<Rightarrow> exn + jsstring" where
  "extractTranslatedText data =
     (case getProp data (ascii ''sentences'') of
        Inl e \<Rightarrow> Inl e
      | Inr sentences \<Rightarrow>
          (case sentences of
             Arr ss \<Rightarrow>
               (case mapE sentenceTrans ss of
                  Inl e \<Rightarrow> Inl e
                | Inr vs \<Rightarrow> Inr (js_join [] vs))
           | _ \<Rightarrow>
               (case data of
                  Arr (Arr items # rest) \<Rightarrow>
                    (case mapE itemFirst items of
                       Inl e \<Rightarrow> Inl e
                     | Inr vs \<Rightarrow> Inr (js_join [] (filter truthy vs)))
                | _ \<Rightarrow> Inr [])))"

text \<open>
  The body of the \<open>try\<close> block after the \<open>await\<close>: \<open>Inl\<close> is a thrown exception,
  \<open>Inr None\<close> the value \<open>null\<close>.
  \<^verbatim>\<open>
  const response = await chrome.runtime.sendMessage({ ... });
  if (!response) { console.warn(...); return null; }
  if (!response.success) { throw new Error(response.error || 'Translation failed'); }
  const data: GoogleTranslateResponse = response.data;
  ... translatedText from data ...
  if (!translatedText) { console.warn(...); return null; }
  const result: TranslationResult =
    { originalText: text, translatedText, sourceLang, targetLang, timestamp: Date.now() };
  return result;
  \<close>
\<close>

definition translateText_try ::
  "jsstring \<Rightarrow> jsstring \<Rightarrow> jsstring \<Rightarrow> nat \<Rightarrow> sendResult \<Rightarrow> exn + TranslationResult option" where
  "translateText_try text srcLang tgtLang now res =
     (case res of
        Rejected m \<Rightarrow> Inl (Error m)
      | Resolved response \<Rightarrow>
          if \<not> truthy response then Inr None
          else
            (case getProp response (ascii ''success'') of
               Inl e \<Rightarrow> Inl e
             | Inr success \<Rightarrow>
                 if \<not> truthy success
                 then (case getProp response (ascii ''error'') of
                         Inl e \<Rightarrow> Inl e
                       | Inr err \<Rightarrow>
                           Inl (Error (toString
                             (if truthy err then err else Str (ascii ''Translation failed'')))))
                 else
                   (case getProp response (ascii ''data'') of
                      Inl e \<Rightarrow> Inl e
                    | Inr data \<Rightarrow>
                        (case extractTranslatedText data of
                           Inl e \<Rightarrow> Inl e
                         | Inr text' \<Rightarrow>
                             if text' = [] then Inr None
                             else Inr (Some \<lparr> originalText = text, translatedText = text',
                                    sourceLang = srcLang, targetLang = tgtLang, timestamp = now \<rparr>)))))"

text \<open>
  \<open>error instanceof Error && error.message.includes('Extension context invalidated')\<close>.
  The message of an engine \<open>TypeError\<close> ("Cannot read properties of ...") does not
  contain the phrase.
\<close>

definition contextInvalidated :: "exn \<Rightarrow> bool" where
  "contextInvalidated e =
     (case e of
        TypeError \<Rightarrow> False
      | Error m \<Rightarrow> js_includes m (ascii ''Extension context invalidated''))"

text \<open>
  \<open>translateText\<close> in two parts: up to the \<open>await\<close> it sends the request; when the
  promise settles it runs the rest of the \<open>try\<close> block, and the \<open>catch\<close> block on an
  exception.
  \<^verbatim>\<open>
  } catch (error) {
    if (error instanceof Error && error.message.includes('Extension context invalidated')) {
      console.warn(...);
      this.stopRecognition();
      return null;
    }
    console.warn('Translation error:', error);
    return null;
  }
  \<close>
\<close>

definition translateText_begin :: "jsstring \<Rightarrow> jsstring \<Rightarrow> jsstring \<Rightarrow> effect list" where
  "translateText_begin text srcLang tgtLang = [SendTranslationRequest text srcLang tgtLang]"

definition translateText_resume ::
  "controller \<Rightarrow> jsstring \<Rightarrow> jsstring \<Rightarrow> jsstring \<Rightarrow> nat \<Rightarrow> sendResult
     \<Rightarrow> TranslationResult option \<times> controller \<times> effect list" where
  "translateText_resume s text srcLang tgtLang now res =
     (case translateText_try text srcLang tgtLang now res of
        Inr r \<Rightarrow> (r, s, [])
      | Inl e \<Rightarrow>
          if contextInvalidated e
          then (let (s', effs) = stopRecognition s in (None, s', effs))
          else (None, s, []))"

section \<open>handleRecognitionResult\<close>

record SpeechRecognitionAlternative =
  transcript :: jsstring
  confidence :: real

record SpeechRecognitionResult =
  alternatives :: "SpeechRecognitionAlternative list"
  isFinal :: bool

text \<open>The locals of \<open>handleRecognitionResult\<close> that are live across its \<open>await\<close>.\<close>

record pendingTranslation =
  pTranscript :: jsstring
  pIsFinal :: bool
  pSourceLang :: jsstring
  pTargetLang :: jsstring

text \<open>
  Up to the \<open>await\<close>. \<open>None\<close> means the handler has returned without calling
  \<open>translateText\<close>. With no result slot, or no alternative in the last slot, the
  property read throws a \<open>TypeError\<close>, which the handler's own \<open>catch\<close> logs.
  \<^verbatim>\<open>
  if (!this.config || !this.isActive) { return; }
  const lastIndex = event.results.length - 1;
  const result = event.results[lastIndex];
  const transcript = result[0].transcript;
  const isFinal = result.isFinal;
  if (!isFinal && transcript.trim().length < 5) { return; }
  const translation = await this.translateText(
    transcript, this.config.inputLang.split('-')[0], this.config.outputLang);
  \<close>
\<close>

definition handleRecognitionResult_begin ::
  "controller \<Rightarrow> SpeechRecognitionResult list \<Rightarrow> pendingTranslation option \<times> effect list" where
  "handleRecognitionResult_begin s results =
     (case config s of
        None \<Rightarrow> (None, [])
      | Some cfg \<Rightarrow>
          if \<not> isActive s then (None, [])
          else if results = [] then (None, [])
          else
            (case alternatives (last results) of
               [] \<Rightarrow> (None, [])
             | alt # alts \<Rightarrow>
                 if \<not> isFinal (last results) \<and> length (trim (transcript alt)) < 5
                 then (None, [])
                 else
                   (Some \<lparr> pTranscript = transcript alt, pIsFinal = isFinal (last results),
                       pSourceLang = splitFirst (inputLang cfg),
                       pTargetLang = outputLang cfg \<rparr>,
                    translateText_begin (transcript alt) (splitFirst (inputLang cfg))
                      (outputLang cfg))))"

text \<open>
  From the point where the promise of \<open>translateText\<close> settles.
  \<^verbatim>\<open>
  if (translation) {
    this.displayBothLanguages(translation.translatedText, transcript, isFinal);
  } else if (!this.isActive) {
    return;
  }
  \<close>
\<close>

definition handleRecognitionResult_resume ::
  "controller \<Rightarrow> pendingTranslation \<Rightarrow> nat \<Rightarrow> sendResult \<Rightarrow> controller \<times> effect list" where
  "handleRecognitionResult_resume s p now res =
     (let (translation, s1, effs) =
            translateText_resume s (pTranscript p) (pSourceLang p) (pTargetLang p) now res
      in case translation of
           Some t \<Rightarrow>
             (let (s2, effs2) =
                    displayBothLanguages s1 (translatedText t) (pTranscript p) (pIsFinal p)
              in (s2, effs @ effs2))
         | None \<Rightarrow> (s1, effs))"

section \<open>The controller as an event-driven machine\<close>

text \<open>
  Every callback the controller registers, as an event with the readings it takes from
  its environment. A translation settles with the locals of the call that awaits it.
\<close>

datatype event =
    RuntimeMessage bool ExtensionMessage
  | OnStart
  | OnResult "SpeechRecognitionResult list"
  | TranslationSettled pendingTranslation nat sendResult
  | OnError jsstring
  | OnEnd
  | RestartTimerFired
  | MouseDown real real real real
  | MouseMove real real real real real real
  | MouseUp
  | CloseClicked
  | ToggleClicked

fun step :: "controller \<Rightarrow> event \<Rightarrow> controller \<times> effect list" where
  "step s (RuntimeMessage supported m) = handleMessage s supported m"
| "step s OnStart = (s, [])"
| "step s (OnResult results) = (s, snd (handleRecognitionResult_begin s results))"
| "step s (TranslationSettled p now res) = handleRecognitionResult_resume s p now res"
| "step s (OnError error) = handleRecognitionError s error"
| "step s OnEnd = handleRecognitionEnd s"
| "step s RestartTimerFired = restartCallback s"
| "step s (MouseDown x y rl rt) = (handleDragStart s x y rl rt, [])"
| "step s (MouseMove x y iw ih ow oh) = handleDragMove s x y iw ih ow oh"
| "step s MouseUp = (handleDragEnd s, [])"
| "step s CloseClicked = stopRecognition s"
| "step s ToggleClicked = (toggleOverlaySize s, [])"

text \<open>The controller after a sequence of events, from the state \<open>s\<close>.\<close>

fun run :: "controller \<Rightarrow> event list \<Rightarrow> controller" where
  "run s [] = s"
| "run s (e # es) = run (fst (step s e)) es"

text \<open>
  What holds of every state the controller reaches: no timer is held in \<open>clearTimer\<close>
  (nothing ever stores one), a panel the controller holds is attached to the document,
  the session is active exactly while the panel exists, an inactive controller holds no
  configuration and no deduplication key, the list starts with its only live block,
  and no block's markup contains \<open><\<close> or \<open>>\<close> taken from a displayed text.
\<close>

definition liveFirst :: "block list \<Rightarrow> bool" where
  "liveFirst bs = (case bs of [] \<Rightarrow> True | b # hs \<Rightarrow> stLive b \<and> \<not> list_ex stLive hs)"

definition noMarkup :: "jsstring \<Rightarrow> bool" where
  "noMarkup s \<longleftrightarrow> 0x3C \<notin> set s \<and> 0x3E \<notin> set s"

definition escapedBlock :: "block \<Rightarrow> bool" where
  "escapedBlock b \<longleftrightarrow> noMarkup (translatedHtml b) \<and> noMarkup (originalHtml b)"

definition wellFormed :: "controller \<Rightarrow> bool" where
  "wellFormed s \<longleftrightarrow>
     clearTimer s = None \<and>
     (case overlay s of None \<Rightarrow> True | Some ov \<Rightarrow> parentNode ov) \<and>
     (isActive s \<longleftrightarrow> overlay s \<noteq> None) \<and>
     (isActive s \<or> (config s = None \<and> lastLineKey s = None)) \<and>
     liveFirst (blocksOf s) \<and>
     list_all escapedBlock (blocksOf s)"

text \<open>
  A run of finalized display calls, and the pairs of such a run that the deduplication
  key lets through: those whose key differs from the key stored before them.
\<close>

fun displayFinals :: "controller \<Rightarrow> (jsstring \<times> jsstring) list \<Rightarrow> controller" where
  "displayFinals s [] = s"
| "displayFinals s ((t, o') # ps) = displayFinals (fst (displayBothLanguages s t o' True)) ps"

fun committed :: "jsstring option \<Rightarrow> (jsstring \<times> jsstring) list \<Rightarrow> (jsstring \<times> jsstring) list" where
  "committed k [] = []"
| "committed k ((t, o') # ps) =
     (if k = Some (lineKey t o') then committed k ps
      else (t, o') # committed (Some (lineKey t o')) ps)"

definition blockTexts :: "block \<Rightarrow> jsstring \<times> jsstring" where
  "blockTexts b = (translatedHtml b, originalHtml b)"

text \<open>
  The live block of a list that starts with it (a new one for the empty list), and that
  block with the two texts of a display call written into it.
\<close>

definition liveOf :: "block list \<Rightarrow> block" where
  "liveOf bs = (case bs of [] \<Rightarrow> newLiveBlock | b # hs \<Rightarrow> b)"

definition rendered :: "jsstring \<Rightarrow> jsstring \<Rightarrow> block list \<Rightarrow> block" where
  "rendered t o' bs = (liveOf bs)\<lparr>translatedHtml := escapeHtml t, originalHtml := escapeHtml o'\<rparr>"

text \<open>
  What \<open>cleanup\<close> leaves of the timer field and of the panel, and what it emits:
  a timer id is cleared when it is truthy, a panel is dropped when it is attached.
\<close>

definition clearedTimer :: "nat option \<Rightarrow> nat option" where
  "clearedTimer c = (case c of None \<Rightarrow> None | Some t \<Rightarrow> if t \<noteq> 0 then None else Some t)"

definition detached :: "overlay option \<Rightarrow> overlay option" where
  "detached v = (case v of None \<Rightarrow> None | Some ov \<Rightarrow> if parentNode ov then None else Some ov)"

definition timerEffects :: "nat option \<Rightarrow> effect list" where
  "timerEffects c = (case c of None \<Rightarrow> [] | Some t \<Rightarrow> if t \<noteq> 0 then [ClearTimeout t] else [])"

text \<open>
  The position the drag handler has written into the panel's style, and the rectangle
  \<open>[0, viewportWidth - panelWidth] \<times> [0, viewportHeight - panelHeight]\<close> of the
  specification.
\<close>

definition panelPosition :: "controller \<Rightarrow> (real \<times> real) option" where
  "panelPosition s =
     (case overlay s of
        None \<Rightarrow> None
      | Some ov \<Rightarrow>
          (case (styleLeft ov, styleTop ov) of
             (Px l, Px t) \<Rightarrow> Some (l, t)
           | _ \<Rightarrow> None))"

definition withinViewport :: "real \<times> real \<Rightarrow> real \<Rightarrow> real \<Rightarrow> real \<Rightarrow> real \<Rightarrow> bool" where
  "withinViewport p innerWidth innerHeight offsetWidth offsetHeight \<longleftrightarrow>
     0 \<le> fst p \<and> fst p \<le> innerWidth - offsetWidth \<and>
     0 \<le> snd p \<and> snd p \<le> innerHeight - offsetHeight"

text \<open>
  The answer of the background script to a translation request, \<open>{ success: true, data }\<close>,
  and the two shapes of \<open>data\<close> the specification names: an object whose \<open>sentences\<close>
  is an array, and an array whose first element is an array. \<open>transOf\<close> is the \<open>trans\<close>
  field of a sentence (a string, or absent and then empty); \<open>firstOf\<close> is the first
  element of a tuple (a string; empty when it is \<open>null\<close> or the tuple is empty).
\<close>

definition okResponse :: "jsval \<Rightarrow> jsval" where
  "okResponse d = Obj [(ascii ''success'', Bool True), (ascii ''data'', d)]"

fun sentencesShape :: "jsval \<Rightarrow> bool" where
  "sentencesShape (Obj kvs) = isArray (case map_of kvs (ascii ''sentences'') of
                                         None \<Rightarrow> Undefined | Some v \<Rightarrow> v)"
| "sentencesShape v = False"

fun tuplesShape :: "jsval \<Rightarrow> bool" where
  "tuplesShape (Arr (Arr items # rest)) = True"
| "tuplesShape v = False"

fun transOf :: "jsval \<Rightarrow> jsstring option" where
  "transOf (Obj kvs) =
     (case map_of kvs (ascii ''trans'') of
        None \<Rightarrow> Some []
      | Some (Str t) \<Rightarrow> Some t
      | Some v \<Rightarrow> None)"
| "transOf v = None"

fun firstOf :: "jsval \<Rightarrow> jsstring option" where
  "firstOf (Arr []) = Some []"
| "firstOf (Arr (Str t # rest)) = Some t"
| "firstOf (Arr (Null # rest)) = Some []"
| "firstOf v = None"

text \<open>
  Two answers of the translation service for \<open>Hello there\<close>, one in each shape.
\<close>

definition sentencesData :: jsval where
  "sentencesData =
     Obj [(ascii ''sentences'',
           Arr [Obj [(ascii ''trans'', Str (ascii ''Hola ''))],
                Obj [(ascii ''trans'', Str (ascii ''amigo'')), (ascii ''backend'', Num True (ascii ''10''))],
                Obj [(ascii ''src_translit'', Str (ascii ''x''))]]),
          (ascii ''src'', Str (ascii ''en''))]"

definition tuplesData :: jsval where
  "tuplesData =
     Arr [Arr [Arr [Str (ascii ''Hola ''), Str (ascii ''Hello ''), Null, Null, Num True (ascii ''10'')],
               Arr [Str (ascii ''amigo''), Str (ascii ''friend'')],
               Arr [Null, Null, Str (ascii ''x'')]],
          Null, Str (ascii ''en'')]"

section \<open>An example session\<close>

text \<open>
  The configuration \<open>{inputLang: "en-US", outputLang: "es"}\<close>, the start command on a
  host with a capture engine, and the controller after it.
\<close>

definition exampleConfig :: RecognitionConfig where
  "exampleConfig = \<lparr> inputLang = ascii ''en-US'', outputLang = ascii ''es'' \<rparr>"

definition startCommand :: event where
  "startCommand =
     RuntimeMessage True \<lparr> msgType = START_RECOGNITION, msgConfig = Some exampleConfig \<rparr>"

definition readyOverlay :: overlay where
  "readyOverlay =
     \<lparr> parentNode = True, content = TextContent readyLabel,
       styleLeft = Css ''0'', styleTop = Css [], styleRight = Css ''0'',
       styleBottom = Css ''80px'', styleMargin = ''0 auto'', styleWidth = ''100%'',
       styleMaxWidth = ''900px'',
       styleTransition = ''opacity 0.2s ease, transform 0.1s ease'',
       styleBorderColor = ''#4caf50'', stSize = None \<rparr>"

definition started :: controller where
  "started =
     \<lparr> recognition = Some \<lparr> lang = ascii ''en-US'', continuous = True,
         interimResults = True, maxAlternatives = 1 \<rparr>,
       config = Some exampleConfig, overlay = Some readyOverlay, isActive = True,
       isDragging = False, dragOffset = (0, 0), clearTimer = None, lastLineKey = None \<rparr>"

text \<open>
  A short interim result, a pending translation of a final result, and a pointer-down
  on the panel of the started controller, 10 px right of and below its corner.
\<close>

definition shortInterim :: "SpeechRecognitionResult list" where
  "shortInterim =
     [\<lparr> alternatives = [\<lparr> transcript = ascii ''  hi  '', confidence = 0.5 \<rparr>],
        isFinal = False \<rparr>]"

definition pendingHello :: pendingTranslation where
  "pendingHello = \<lparr> pTranscript = ascii ''Hello there'', pIsFinal = True,
     pSourceLang = ascii ''en'', pTargetLang = ascii ''es'' \<rparr>"

text \<open>
  The scenario of the specification: the final result \<open>Hello there\<close> and the answer
  \<open>{sentences: [{trans: "Hola"}]}\<close> of the translation service.
\<close>

definition helloFinal :: "SpeechRecognitionResult list" where
  "helloFinal =
     [\<lparr> alternatives = [\<lparr> transcript = ascii ''Hello there'', confidence = 0.9 \<rparr>],
        isFinal = True \<rparr>]"

definition holaResponse :: sendResult where
  "holaResponse = Resolved (okResponse
     (Obj [(ascii ''sentences'', Arr [Obj [(ascii ''trans'', Str (ascii ''Hola''))]])]))"

text \<open>
  The started controller after the scenario: it shows \<open>Hola\<close> / \<open>Hello there\<close> in the
  live block and in one history entry, and holds the key of that pair.
\<close>

definition shown :: controller where
  "shown = run initial [startCommand, OnResult helloFinal,
     TranslationSettled pendingHello 0 holaResponse]"

definition pointerDown :: event where
  "pointerDown = MouseDown 110 510 100 500"

section \<open>Properties\<close>

subsection \<open>Escaping\<close>

lemma ascii_amp: "ascii ''&amp;'' = [0x26, 0x61, 0x6D, 0x70, 0x3B]"
  by (simp add: ascii_def)
lemma ascii_nbsp: "ascii ''&nbsp;'' = [0x26, 0x6E, 0x62, 0x73, 0x70, 0x3B]"
  by (simp add: ascii_def)
lemma ascii_lt: "ascii ''&lt;'' = [0x26, 0x6C, 0x74, 0x3B]"
  by (simp add: ascii_def)
lemma ascii_gt: "ascii ''&gt;'' = [0x26, 0x67, 0x74, 0x3B]"
  by (simp add: ascii_def)
lemmas entity_codes = ascii_amp ascii_nbsp ascii_lt ascii_gt
lemma escapeString_Cons: "escapeString (c # cs) = escapeChar c @ escapeString cs"
  by (simp add: escapeString_def escapeChar_def replaceAll_def entity_codes)
lemma escapeString_chars: "escapeString s = concat (map escapeChar s)"
  by (induction s) (simp_all add: escapeString_Cons, simp add: escapeString_def replaceAll_def)
lemma escapeHtml_chars: "escapeHtml s = concat (map escapeChar s)"
  by (simp add: escapeHtml_def serializeChildren_def setTextContent_def escapeString_chars)
lemma noMarkup_escapeChar: "noMarkup (escapeChar c)"
  by (simp add: noMarkup_def escapeChar_def entity_codes)
lemma noMarkup_escapeHtml: "noMarkup (escapeHtml s)"
  using noMarkup_escapeChar by (auto simp add: escapeHtml_chars noMarkup_def)

subsection \<open>The list of blocks\<close>

lemma liveFirst_Nil: "liveFirst []"
  by (simp add: liveFirst_def)

lemma liveFirst_Cons: "liveFirst (b # hs) \<longleftrightarrow> stLive b \<and> \<not> list_ex stLive hs"
  by (simp add: liveFirst_def)

lemma filter_no_live: "\<not> list_ex stLive hs \<Longrightarrow> filter (\<lambda>b. \<not> stLive b) hs = hs"
  by (induction hs) auto

lemma filter_live_none: "\<not> list_ex stLive hs \<Longrightarrow> filter stLive hs = []"
  by (induction hs) auto

lemma stLive_rendered: "liveFirst bs \<Longrightarrow> stLive (rendered t o' bs)"
  by (cases bs) (simp_all add: rendered_def liveOf_def newLiveBlock_def liveFirst_Cons)

lemma setLive_ensureLive:
  "liveFirst bs \<Longrightarrow>
     setLiveHtml t o' (ensureLive bs) = rendered t o' bs # filter (\<lambda>b. \<not> stLive b) bs"
  by (cases bs)
     (simp_all add: ensureLive_def rendered_def liveOf_def newLiveBlock_def liveFirst_Cons
        filter_no_live)

lemma insertHistory_live: "stLive b \<Longrightarrow> insertHistory (b # hs) = b # historyBlock b # hs"
  by simp

lemma not_live_historyBlock: "\<not> stLive (historyBlock b)"
  by (simp add: historyBlock_def)

lemma escaped_rendered: "escapedBlock (rendered t o' bs)"
  by (simp add: escapedBlock_def rendered_def noMarkup_escapeHtml)

lemma escaped_historyBlock: "escapedBlock b \<Longrightarrow> escapedBlock (historyBlock b)"
  by (simp add: escapedBlock_def historyBlock_def)

lemma clearPendingTimer_wf: "clearTimer s = None \<Longrightarrow> clearPendingTimer s = (s, [])"
  by (simp add: clearPendingTimer_def)

text \<open>The effect of a display call on a well-formed state that has a panel.\<close>

lemma display_wf:
  assumes wf: "wellFormed s" and ov: "overlay s = Some ov"
  shows "displayBothLanguages s t o' fin =
     (s\<lparr>overlay := Some (ov\<lparr>content := Container
           (case content ov of Container l bs \<Rightarrow> l | TextContent x \<Rightarrow> toggleMaxIcon)
           (rendered t o' (blocksOf s) #
             (if fin \<and> lastLineKey s \<noteq> Some (lineKey t o')
              then [historyBlock (rendered t o' (blocksOf s))] else []) @
             historyEntries s)\<rparr>),
         lastLineKey := (if fin \<and> lastLineKey s \<noteq> Some (lineKey t o')
                         then Some (lineKey t o') else lastLineKey s)\<rparr>, [])"
proof -
  have ct: "clearPendingTimer s = (s, [])"
    using wf by (simp add: wellFormed_def clearPendingTimer_wf)
  have lf: "liveFirst (blocksOf s)"
    using wf by (simp add: wellFormed_def)
  show ?thesis
  proof (cases "content ov")
    case (TextContent x)
    then have bs: "blocksOf s = []" using ov by (simp add: blocksOf_def)
    show ?thesis
      using ct ov TextContent bs liveFirst_Nil setLive_ensureLive [OF liveFirst_Nil, of t o']
        stLive_rendered [OF liveFirst_Nil, of t o']
      by (simp add: displayBothLanguages_def historyEntries_def Let_def)
  next
    case (Container l bs)
    then have bs: "blocksOf s = bs" using ov by (simp add: blocksOf_def)
    show ?thesis
      using ct ov Container bs lf setLive_ensureLive [of bs t o']
        stLive_rendered [of bs t o']
      by (simp add: displayBothLanguages_def historyEntries_def Let_def)
  qed
qed

lemma display_none:
  "overlay s = None \<Longrightarrow> clearTimer s = None \<Longrightarrow> displayBothLanguages s t o' fin = (s, [])"
  by (simp add: displayBothLanguages_def clearPendingTimer_def)

lemma blocksOf_display:
  assumes "wellFormed s" and "overlay s = Some ov"
  shows "blocksOf (fst (displayBothLanguages s t o' fin)) =
     rendered t o' (blocksOf s) #
       (if fin \<and> lastLineKey s \<noteq> Some (lineKey t o')
        then [historyBlock (rendered t o' (blocksOf s))] else []) @ historyEntries s"
  by (simp add: display_wf [OF assms] blocksOf_def)

lemma historyEntries_not_live: "\<not> list_ex stLive (historyEntries s)"
  by (simp add: historyEntries_def list_ex_iff)

lemma historyEntries_escaped:
  "list_all escapedBlock (blocksOf s) \<Longrightarrow> list_all escapedBlock (historyEntries s)"
  by (simp add: historyEntries_def list_all_iff)

lemma wellFormed_display:
  assumes wf: "wellFormed s"
  shows "wellFormed (fst (displayBothLanguages s t o' fin))"
proof (cases "overlay s")
  case None
  have "clearTimer s = None" using wf by (simp add: wellFormed_def)
  then show ?thesis using wf None by (simp add: display_none)
next
  case (Some ov)
  have lf: "liveFirst (blocksOf s)" using wf by (simp add: wellFormed_def)
  have esc: "list_all escapedBlock (historyEntries s)"
    using wf by (simp add: wellFormed_def historyEntries_escaped)
  have b: "liveFirst (blocksOf (fst (displayBothLanguages s t o' fin)))"
    using stLive_rendered [OF lf, of t o'] historyEntries_not_live [of s]
    by (simp add: blocksOf_display [OF wf Some] liveFirst_Cons not_live_historyBlock)
  have e: "list_all escapedBlock (blocksOf (fst (displayBothLanguages s t o' fin)))"
    using esc by (simp add: blocksOf_display [OF wf Some] escaped_rendered escaped_historyBlock)
  show ?thesis
    using wf Some b e unfolding wellFormed_def
    by (simp add: display_wf [OF wf Some])
qed

subsection \<open>Every handler keeps the controller well-formed\<close>

lemma wellFormed_initial: "wellFormed initial"
  by (simp add: wellFormed_def initial_def blocksOf_def liveFirst_def)

lemma cleanup_wf:
  "wellFormed s \<Longrightarrow>
     cleanup s = (s\<lparr>overlay := None, isActive := False, config := None, lastLineKey := None\<rparr>, [])"
  by (auto simp add: wellFormed_def cleanup_def clearPendingTimer_def removeOverlay_def
      split: option.splits)

lemma wellFormed_cleared:
  "wellFormed s \<Longrightarrow>
     wellFormed (s\<lparr>overlay := None, isActive := False, config := None, lastLineKey := None\<rparr>)"
  by (simp add: wellFormed_def blocksOf_def liveFirst_def)

lemma wellFormed_recognition: "wellFormed (s\<lparr>recognition := r\<rparr>) = wellFormed s"
  by (simp add: wellFormed_def blocksOf_def)

lemma wellFormed_cleanup: "wellFormed s \<Longrightarrow> wellFormed (fst (cleanup s))"
  by (simp add: cleanup_wf wellFormed_cleared)

lemma stopRecognition_wf:
  "wellFormed s \<Longrightarrow>
     stopRecognition s =
       (s\<lparr>recognition := None, overlay := None, isActive := False, config := None,
          lastLineKey := None\<rparr>,
        (if recognition s = None then [] else [EngineStop]) @
        [StorageSetIsActive False, SendStatusUpdate False (ascii ''Recognition Stopped'')])"
  by (auto simp add: wellFormed_def stopRecognition_def cleanup_def clearPendingTimer_def
      removeOverlay_def split: option.splits)

lemma wellFormed_stop:
  assumes "wellFormed s"
  shows "wellFormed (fst (stopRecognition s))"
  using assms by (simp add: stopRecognition_wf [OF assms] wellFormed_def blocksOf_def liveFirst_def)

lemma wellFormed_start: "wellFormed s \<Longrightarrow> wellFormed (fst (startRecognition s supported cfg))"
  by (auto simp add: startRecognition_def cleanup_wf wellFormed_cleared Let_def
      wellFormed_def createOverlay_def updateOverlay_def blocksOf_def liveFirst_def
      split: option.splits)

lemma wellFormed_handleMessage: "wellFormed s \<Longrightarrow> wellFormed (fst (handleMessage s supported m))"
  by (simp add: handleMessage_def wellFormed_start wellFormed_stop
      split: MessageType.splits option.splits)

lemma wellFormed_translateText:
  "wellFormed s \<Longrightarrow> wellFormed (fst (snd (translateText_resume s text srcLang tgtLang now res)))"
  by (simp add: translateText_resume_def wellFormed_stop split: sum.splits prod.splits)

lemma wellFormed_resume:
  "wellFormed s \<Longrightarrow> wellFormed (fst (handleRecognitionResult_resume s p now res))"
proof -
  assume wf: "wellFormed s"
  obtain r s1 effs where t:
    "translateText_resume s (pTranscript p) (pSourceLang p) (pTargetLang p) now res = (r, s1, effs)"
    by (cases "translateText_resume s (pTranscript p) (pSourceLang p) (pTargetLang p) now res")
  have wf1: "wellFormed s1"
    using wellFormed_translateText [OF wf, of "pTranscript p" "pSourceLang p" "pTargetLang p" now res] t
    by simp
  show ?thesis
  proof (cases r)
    case None
    then show ?thesis using t wf1 by (simp add: handleRecognitionResult_resume_def)
  next
    case (Some tr)
    then show ?thesis
      using t wellFormed_display [OF wf1, of "translatedText tr" "pTranscript p" "pIsFinal p"]
      by (auto simp add: handleRecognitionResult_resume_def split: prod.splits)
  qed
qed

lemma handleRecognitionError_state: "fst (handleRecognitionError s error) = s"
  by (simp add: handleRecognitionError_def Let_def)

lemma wellFormed_end: "wellFormed s \<Longrightarrow> wellFormed (fst (handleRecognitionEnd s))"
  by (simp add: handleRecognitionEnd_def wellFormed_cleanup)

lemma wellFormed_dragStart: "wellFormed s \<Longrightarrow> wellFormed (handleDragStart s x y rl rt)"
  by (auto simp add: handleDragStart_def wellFormed_def blocksOf_def split: option.splits)

lemma wellFormed_dragMove:
  "wellFormed s \<Longrightarrow> wellFormed (fst (handleDragMove s x y iw ih ow oh))"
  by (auto simp add: handleDragMove_def wellFormed_def blocksOf_def Let_def split: option.splits)

lemma wellFormed_dragEnd: "wellFormed s \<Longrightarrow> wellFormed (handleDragEnd s)"
  by (auto simp add: handleDragEnd_def wellFormed_def blocksOf_def split: option.splits)

lemma blocks_setToggleLabel:
  "(case setToggleLabel l c of Container l' bs \<Rightarrow> bs | TextContent x \<Rightarrow> []) =
   (case c of Container l' bs \<Rightarrow> bs | TextContent x \<Rightarrow> [])"
  by (cases c) simp_all

lemma wellFormed_toggle: "wellFormed s \<Longrightarrow> wellFormed (toggleOverlaySize s)"
  by (auto simp add: toggleOverlaySize_def wellFormed_def blocksOf_def blocks_setToggleLabel
      split: option.splits)

lemma wellFormed_step: "wellFormed s \<Longrightarrow> wellFormed (fst (step s e))"
  by (cases e)
     (simp_all add: wellFormed_handleMessage wellFormed_resume handleRecognitionError_state wellFormed_end
        wellFormed_dragStart wellFormed_dragMove wellFormed_dragEnd wellFormed_toggle
        wellFormed_stop restartCallback_def)

lemma wellFormed_run: "wellFormed s \<Longrightarrow> wellFormed (run s es)"
  by (induction es arbitrary: s) (simp_all add: wellFormed_step)

lemma wellFormed_reachable: "wellFormed (run initial es)"
  by (simp add: wellFormed_run wellFormed_initial)

subsection \<open>Display calls on a well-formed state\<close>

lemma liveBlocks_display:
  assumes "wellFormed s" and "overlay s = Some ov"
  shows "liveBlocks (fst (displayBothLanguages s t o' fin)) = [rendered t o' (blocksOf s)]"
proof -
  have lf: "liveFirst (blocksOf s)" using assms(1) by (simp add: wellFormed_def)
  show ?thesis
    using stLive_rendered [OF lf, of t o'] historyEntries_not_live [of s]
    by (simp add: liveBlocks_def blocksOf_display [OF assms] not_live_historyBlock
        filter_live_none)
qed

lemma historyEntries_display:
  assumes "wellFormed s" and "overlay s = Some ov"
  shows "historyEntries (fst (displayBothLanguages s t o' fin)) =
     (if fin \<and> lastLineKey s \<noteq> Some (lineKey t o')
      then [historyBlock (rendered t o' (blocksOf s))] else []) @ historyEntries s"
proof -
  have lf: "liveFirst (blocksOf s)" using assms(1) by (simp add: wellFormed_def)
  have h: "filter (\<lambda>b. \<not> stLive b) (historyEntries s) = historyEntries s"
    by (simp add: historyEntries_def)
  show ?thesis
    using stLive_rendered [OF lf, of t o'] h
    by (simp add: historyEntries_def [of "fst (displayBothLanguages s t o' fin)"]
        blocksOf_display [OF assms] not_live_historyBlock)
qed

lemma lastLineKey_display:
  assumes "wellFormed s" and "overlay s = Some ov"
  shows "lastLineKey (fst (displayBothLanguages s t o' fin)) =
     (if fin then Some (lineKey t o') else lastLineKey s)"
  by (simp add: display_wf [OF assms])

lemma overlay_display:
  "overlay (fst (displayBothLanguages s t o' fin)) = None \<longleftrightarrow> overlay s = None"
  by (auto simp add: displayBothLanguages_def clearPendingTimer_def Let_def
      split: option.splits prod.splits content.splits)

lemma blockTexts_rendered: "blockTexts (rendered t o' bs) = (escapeHtml t, escapeHtml o')"
  by (simp add: blockTexts_def rendered_def)

lemma blockTexts_historyBlock: "blockTexts (historyBlock b) = blockTexts b"
  by (simp add: blockTexts_def historyBlock_def)

text \<open>A run of finalized display calls commits exactly the pairs the key lets through.\<close>

lemma displayFinals_history:
  "wellFormed s \<Longrightarrow> overlay s \<noteq> None \<Longrightarrow>
     map blockTexts (historyEntries (displayFinals s ps)) =
       rev (map (\<lambda>(t, o'). (escapeHtml t, escapeHtml o')) (committed (lastLineKey s) ps)) @
       map blockTexts (historyEntries s)"
proof (induction ps arbitrary: s)
  case Nil
  show ?case by simp
next
  case (Cons p ps)
  obtain t o' where p: "p = (t, o')" by (cases p)
  obtain ov where ov: "overlay s = Some ov" using Cons.prems(2) by auto
  let ?s1 = "fst (displayBothLanguages s t o' True)"
  have wf1: "wellFormed ?s1" using Cons.prems(1) by (rule wellFormed_display)
  have ov1: "overlay ?s1 \<noteq> None" using Cons.prems(2) by (simp add: overlay_display)
  have key1: "lastLineKey ?s1 = Some (lineKey t o')"
    by (simp add: lastLineKey_display [OF Cons.prems(1) ov])
  have ih: "map blockTexts (historyEntries (displayFinals ?s1 ps)) =
       rev (map (\<lambda>(t, o'). (escapeHtml t, escapeHtml o')) (committed (Some (lineKey t o')) ps)) @
       map blockTexts (historyEntries ?s1)"
    using Cons.IH [OF wf1 ov1] key1 by simp
  show ?case
  proof (cases "lastLineKey s = Some (lineKey t o')")
    case True
    then show ?thesis
      using ih p by (simp add: historyEntries_display [OF Cons.prems(1) ov])
  next
    case False
    then show ?thesis
      using ih p
      by (simp add: historyEntries_display [OF Cons.prems(1) ov] blockTexts_historyBlock
          blockTexts_rendered)
  qed
qed

lemma displayFinals_none:
  "overlay s = None \<Longrightarrow> clearTimer s = None \<Longrightarrow> displayFinals s ps = s"
  by (induction ps) (auto simp add: display_none)

subsection \<open>Live blocks, on any list\<close>

lemma live_ensureLive:
  "filter stLive (ensureLive bs) = (if filter stLive bs = [] then [newLiveBlock] else filter stLive bs)"
  by (auto simp add: ensureLive_def list_ex_iff filter_empty_conv newLiveBlock_def)

lemma live_setLiveHtml: "length (filter stLive (setLiveHtml t o' bs)) = length (filter stLive bs)"
  by (induction bs) simp_all

lemma live_insertHistory: "filter stLive (insertHistory bs) = filter stLive bs"
  by (induction bs) (simp_all add: not_live_historyBlock)

lemma liveBlocks_clearPendingTimer: "blocksOf (fst (clearPendingTimer s)) = blocksOf s"
  by (simp add: clearPendingTimer_def blocksOf_def split: option.splits)

lemma overlay_clearPendingTimer: "overlay (fst (clearPendingTimer s)) = overlay s"
  by (simp add: clearPendingTimer_def split: option.splits)

lemma live_count_display:
  "length (liveBlocks (fst (displayBothLanguages s t o' fin))) =
     (if overlay s = None then 0
      else if liveBlocks s = [] then 1 else length (liveBlocks s))"
proof -
  obtain s1 effs where c: "clearPendingTimer s = (s1, effs)"
    by (cases "clearPendingTimer s")
  have o1: "overlay s1 = overlay s" using overlay_clearPendingTimer [of s] c by simp
  show ?thesis
  proof (cases "overlay s")
    case None
    then show ?thesis using c o1
      by (simp add: displayBothLanguages_def liveBlocks_def blocksOf_def)
  next
    case (Some ov)
    show ?thesis
    proof (cases "content ov")
      case (TextContent x)
      then show ?thesis using c o1 Some
        by (simp add: displayBothLanguages_def liveBlocks_def blocksOf_def Let_def
            live_insertHistory live_setLiveHtml live_ensureLive)
    next
      case (Container l bs)
      then show ?thesis using c o1 Some
        by (simp add: displayBothLanguages_def liveBlocks_def blocksOf_def Let_def
            live_insertHistory live_setLiveHtml live_ensureLive)
    qed
  qed
qed

lemma live_count_wf: "wellFormed s \<Longrightarrow> length (liveBlocks s) \<le> 1"
  by (cases "blocksOf s")
     (simp_all add: wellFormed_def liveBlocks_def liveFirst_Cons filter_live_none)

subsection \<open>The example session\<close>

lemma run_start: "run initial [startCommand] = started"
  by (simp add: startCommand_def started_def readyOverlay_def initial_def handleMessage_def
      startRecognition_def createOverlay_def updateOverlay_def exampleConfig_def Let_def)

lemma wellFormed_started: "wellFormed started"
  using wellFormed_reachable [of "[startCommand]"] by (simp only: run_start)

lemma blocksOf_started: "blocksOf started = []"
  by (simp add: started_def readyOverlay_def blocksOf_def)

lemma overlay_started: "overlay started = Some readyOverlay"
  by (simp add: started_def)

text \<open>
  The scenario: the request goes out with the primary subtag of the input language, the
  answer is shown in the live block and in one history entry, and the same final result
  once more adds no second entry.
\<close>

lemma scenario_request:
  "step (run initial [startCommand]) (OnResult helloFinal) =
     (started, [SendTranslationRequest (ascii ''Hello there'') (ascii ''en'') (ascii ''es'')]) \<and>
   fst (handleRecognitionResult_begin started helloFinal) = Some pendingHello"
  by code_simp

lemma scenario_display:
  "map blockTexts (blocksOf (run initial [startCommand, OnResult helloFinal,
     TranslationSettled pendingHello 0 holaResponse])) =
   [(ascii ''Hola'', ascii ''Hello there''), (ascii ''Hola'', ascii ''Hello there'')] \<and>
   map stLive (blocksOf (run initial [startCommand, OnResult helloFinal,
     TranslationSettled pendingHello 0 holaResponse])) = [True, False]"
  by code_simp

lemma scenario_repeated_final:
  "map stLive (blocksOf (run initial [startCommand, OnResult helloFinal,
     TranslationSettled pendingHello 0 holaResponse, OnResult helloFinal,
     TranslationSettled pendingHello 1 holaResponse])) = [True, False]"
  by code_simp

subsection \<open>The replacement the specification describes\<close>

lemma replaceAll_Cons: "replaceAll c r (x # xs) = (if x = c then r else [x]) @ replaceAll c r xs"
  by (simp add: replaceAll_def)

lemma replaceAll_Nil: "replaceAll c r [] = []"
  by (simp add: replaceAll_def)

lemma replaceAll_append: "replaceAll c r (xs @ ys) = replaceAll c r xs @ replaceAll c r ys"
  by (simp add: replaceAll_def)

lemma escapeHtml_spec_Cons:
  "escapeHtml_spec (c # cs) =
     (if c = 0x26 then ascii ''&amp;'' else if c = 0x3C then ascii ''&lt;''
      else if c = 0x3E then ascii ''&gt;'' else [c]) @ escapeHtml_spec cs"
  by (simp add: escapeHtml_spec_def replaceAll_Cons replaceAll_append replaceAll_Nil entity_codes)

lemma escapeHtml_spec_eq: "0xA0 \<notin> set s \<Longrightarrow> escapeHtml s = escapeHtml_spec s"
proof (induction s)
  case Nil
  show ?case by (simp add: escapeHtml_chars escapeHtml_spec_def replaceAll_def)
next
  case (Cons c cs)
  then show ?case by (auto simp add: escapeHtml_chars escapeHtml_spec_Cons escapeChar_def)
qed

lemma stopped_state:
  "run initial [startCommand, CloseClicked] =
     started\<lparr>recognition := None, overlay := None, isActive := False, config := None\<rparr>"
proof -
  have "run initial [startCommand, CloseClicked] = fst (stopRecognition started)"
    using run_start by simp
  then show ?thesis
    by (simp add: stopRecognition_wf [OF wellFormed_started]) (simp add: started_def)
qed

lemma escapeHtml_plain:
  "escapeHtml (ascii ''Hola'') = ascii ''Hola''"
  "escapeHtml (ascii ''Hello'') = ascii ''Hello''"
  "escapeHtml (ascii ''Adios'') = ascii ''Adios''"
  "escapeHtml (ascii ''Bye'') = ascii ''Bye''"
  by (simp_all add: escapeHtml_chars escapeChar_def ascii_def)

lemma committed_example:
  "committed None [(ascii ''Hola'', ascii ''Hello''), (ascii ''Hola'', ascii ''Hello''),
     (ascii ''Adios'', ascii ''Bye'')] =
   [(ascii ''Hola'', ascii ''Hello''), (ascii ''Adios'', ascii ''Bye'')]"
  by (simp add: lineKey_def ascii_def)

subsection \<open>Stopping and cleaning up, on any state\<close>

lemma cleanup_eq:
  "cleanup s =
     (s\<lparr>overlay := detached (overlay s), isActive := False, config := None,
        clearTimer := clearedTimer (clearTimer s), lastLineKey := None\<rparr>,
      timerEffects (clearTimer s))"
  by (cases "clearTimer s"; cases "overlay s")
     (simp_all add: cleanup_def clearPendingTimer_def removeOverlay_def clearedTimer_def
        detached_def timerEffects_def)

lemma stopRecognition_eq:
  "stopRecognition s =
     (s\<lparr>recognition := None, overlay := detached (overlay s), isActive := False,
        config := None, clearTimer := clearedTimer (clearTimer s), lastLineKey := None\<rparr>,
      (if recognition s = None then [] else [EngineStop]) @ timerEffects (clearTimer s) @
      [StorageSetIsActive False, SendStatusUpdate False (ascii ''Recognition Stopped'')])"
  by (cases "recognition s") (simp_all add: stopRecognition_def cleanup_eq)



lemma stopRecognition_fields:
  "\<not> isActive (fst (stopRecognition s))"
  "recognition (fst (stopRecognition s)) = None"
  "config (fst (stopRecognition s)) = None"
  "lastLineKey (fst (stopRecognition s)) = None"
  by (simp_all add: stopRecognition_eq)




lemma cleanup_fields:
  "\<not> isActive (fst (cleanup s))" "config (fst (cleanup s)) = None"
  "lastLineKey (fst (cleanup s)) = None"
  by (simp_all add: cleanup_eq)

lemma cleanup_effects: "snd (cleanup s) = [] \<or> (\<exists>t. snd (cleanup s) = [ClearTimeout t])"
  by (simp add: cleanup_eq timerEffects_def split: option.splits)

lemma cleanup_inactive:
  assumes "wellFormed s" and "\<not> isActive s"
  shows "cleanup s = (s, [])"
proof -
  have "overlay s = None" "config s = None" "lastLineKey s = None"
    using assms by (auto simp add: wellFormed_def)
  then have "s\<lparr>overlay := None, isActive := False, config := None, lastLineKey := None\<rparr> = s"
    using assms(2) by simp
  then show ?thesis by (simp add: cleanup_wf [OF assms(1)])
qed

subsection \<open>Settled translations, and more of the example session\<close>

lemma translateText_no_response:
  "\<not> truthy response \<Longrightarrow>
     translateText_resume s text srcLang tgtLang now (Resolved response) = (None, s, [])"
  by (simp add: translateText_resume_def translateText_try_def)

lemma translateText_invalidated:
  "js_includes m (ascii ''Extension context invalidated'') \<Longrightarrow>
     translateText_resume s text srcLang tgtLang now (Rejected m) =
       (None, fst (stopRecognition s), snd (stopRecognition s))"
  by (simp add: translateText_resume_def translateText_try_def contextInvalidated_def
      split: prod.splits)

lemma includes_example:
  "js_includes (ascii ''Error: Extension context invalidated.'')
     (ascii ''Extension context invalidated'')"
  by (simp add: ascii_def startsWith_def)

lemma dragging_state:
  "run initial [startCommand, pointerDown] =
     started\<lparr>isDragging := True, dragOffset := (10, 10),
       overlay := Some (readyOverlay\<lparr>styleTransition := ''none''\<rparr>)\<rparr>"
proof -
  have "run initial [startCommand, pointerDown] = handleDragStart started 110 510 100 500"
    using run_start by (simp add: pointerDown_def)
  then show ?thesis by (simp add: handleDragStart_def started_def)
qed

lemma long_interim_translated:
  "handleRecognitionResult_begin started
     [\<lparr> alternatives = [\<lparr> transcript = ascii ''hello'', confidence = 0.5 \<rparr>], isFinal = False \<rparr>] =
   (Some \<lparr> pTranscript = ascii ''hello'', pIsFinal = False, pSourceLang = ascii ''en'',
       pTargetLang = ascii ''es'' \<rparr>,
    [SendTranslationRequest (ascii ''hello'') (ascii ''en'') (ascii ''es'')])"
  by (simp add: handleRecognitionResult_begin_def started_def exampleConfig_def
      translateText_begin_def)
     (simp add: trim_def ascii_def isWhiteSpace_def splitFirst_def)

subsection \<open>Parsing the two shapes\<close>

lemma joinWith_empty: "joinWith [] xs = concat xs"
  by (induction "[] :: jsstring" xs rule: joinWith.induct) simp_all

lemma js_join_empty: "js_join [] vs = concat (map elemString vs)"
  by (simp add: js_join_def joinWith_empty)

lemma sentenceTrans_transOf:
  "transOf v = Some t \<Longrightarrow> \<exists>w. sentenceTrans v = Inr w \<and> elemString w = t"
  by (cases v)
     (auto simp add: sentenceTrans_def elemString_def split: option.splits jsval.splits)

lemma mapE_sentences:
  "map transOf ss = map Some ts \<Longrightarrow>
     \<exists>vs. mapE sentenceTrans ss = Inr vs \<and> map elemString vs = ts"
proof (induction ss arbitrary: ts)
  case Nil
  then show ?case by simp
next
  case (Cons v ss)
  then obtain t ts' where ts: "ts = t # ts'" "transOf v = Some t" "map transOf ss = map Some ts'"
    by (cases ts) auto
  obtain w where w: "sentenceTrans v = Inr w" "elemString w = t"
    using sentenceTrans_transOf [OF ts(2)] by blast
  obtain vs where vs: "mapE sentenceTrans ss = Inr vs" "map elemString vs = ts'"
    using Cons.IH [OF ts(3)] by blast
  show ?case using ts(1) w vs by simp
qed

lemma itemFirst_firstOf:
  "firstOf v = Some t \<Longrightarrow>
     \<exists>w. itemFirst v = Inr w \<and> concat (map elemString (filter truthy [w])) = t"
  by (induction v rule: firstOf.induct) (auto simp add: itemFirst_def elemString_def)

lemma mapE_items:
  "map firstOf items = map Some ts \<Longrightarrow>
     \<exists>vs. mapE itemFirst items = Inr vs \<and> concat (map elemString (filter truthy vs)) = concat ts"
proof (induction items arbitrary: ts)
  case Nil
  then show ?case by simp
next
  case (Cons v items)
  then obtain t ts' where ts: "ts = t # ts'" "firstOf v = Some t" "map firstOf items = map Some ts'"
    by (cases ts) auto
  obtain w where w: "itemFirst v = Inr w" "concat (map elemString (filter truthy [w])) = t"
    using itemFirst_firstOf [OF ts(2)] by blast
  obtain vs where vs: "mapE itemFirst items = Inr vs"
      "concat (map elemString (filter truthy vs)) = concat ts'"
    using Cons.IH [OF ts(3)] by blast
  show ?case using ts(1) w vs by (auto split: if_splits)
qed

lemma extract_sentences:
  assumes "map_of kvs (ascii ''sentences'') = Some (Arr ss)" and "map transOf ss = map Some ts"
  shows "extractTranslatedText (Obj kvs) = Inr (concat ts)"
proof -
  obtain vs where "mapE sentenceTrans ss = Inr vs" "map elemString vs = ts"
    using mapE_sentences [OF assms(2)] by blast
  then show ?thesis using assms(1) by (simp add: extractTranslatedText_def js_join_empty)
qed

lemma extract_tuples:
  assumes "map firstOf items = map Some ts"
  shows "extractTranslatedText (Arr (Arr items # rest)) = Inr (concat ts)"
proof -
  obtain vs where "mapE itemFirst items = Inr vs"
      "concat (map elemString (filter truthy vs)) = concat ts"
    using mapE_items [OF assms] by blast
  then show ?thesis by (simp add: extractTranslatedText_def js_join_empty)
qed

lemma mapE_TypeError: "(\<And>x. f x = Inl e \<Longrightarrow> e = TypeError) \<Longrightarrow> mapE f xs = Inl e \<Longrightarrow> e = TypeError"
  by (induction xs) (auto split: sum.splits)

lemma getProp_TypeError: "getProp v k = Inl e \<Longrightarrow> e = TypeError"
  by (cases v) auto

lemma getIndex0_TypeError: "getIndex0 v = Inl e \<Longrightarrow> e = TypeError"
  by (induction v rule: getIndex0.induct) auto

lemma sentenceTrans_TypeError: "sentenceTrans v = Inl e \<Longrightarrow> e = TypeError"
  by (auto simp add: sentenceTrans_def split: sum.splits dest: getProp_TypeError)

lemma itemFirst_TypeError: "itemFirst v = Inl e \<Longrightarrow> e = TypeError"
  by (auto simp add: itemFirst_def split: sum.splits dest: getIndex0_TypeError)

lemma mapE_sentenceTrans_TypeError: "mapE sentenceTrans xs = Inl e \<Longrightarrow> e = TypeError"
  using mapE_TypeError [of sentenceTrans e xs] sentenceTrans_TypeError by blast

lemma mapE_itemFirst_TypeError: "mapE itemFirst xs = Inl e \<Longrightarrow> e = TypeError"
  using mapE_TypeError [of itemFirst e xs] itemFirst_TypeError by blast

lemma extract_TypeError: "extractTranslatedText d = Inl e \<Longrightarrow> e = TypeError"
  unfolding extractTranslatedText_def
  by (auto split: sum.splits jsval.splits list.splits
      dest: getProp_TypeError mapE_sentenceTrans_TypeError mapE_itemFirst_TypeError)

lemma extract_other:
  "\<not> sentencesShape d \<Longrightarrow> \<not> tuplesShape d \<Longrightarrow>
     extractTranslatedText d = Inr [] \<or> extractTranslatedText d = Inl TypeError"
  by (cases d rule: tuplesShape.cases)
     (auto simp add: extractTranslatedText_def split: option.splits jsval.splits)

text \<open>\<open>translateText\<close> on an answer \<open>{ success: true, data }\<close>, by what the parse gives.\<close>

lemma translateText_ok:
  "translateText_resume s text srcLang tgtLang now (Resolved (okResponse d)) =
     (case extractTranslatedText d of
        Inl e \<Rightarrow> None
      | Inr text' \<Rightarrow>
          if text' = [] then None
          else Some \<lparr> originalText = text, translatedText = text', sourceLang = srcLang,
                 targetLang = tgtLang, timestamp = now \<rparr>,
      s, [])"
proof (cases "extractTranslatedText d")
  case (Inl e)
  then have "e = TypeError" by (rule extract_TypeError)
  then show ?thesis using Inl
    by (simp add: translateText_resume_def translateText_try_def okResponse_def
        contextInvalidated_def ascii_def)
next
  case (Inr text')
  then show ?thesis
    by (simp add: translateText_resume_def translateText_try_def okResponse_def ascii_def)
qed

lemma translateText_nonempty:
  "fst (translateText_resume s text srcLang tgtLang now res) = Some r \<Longrightarrow>
     translatedText r \<noteq> [] \<and> originalText r = text"
  by (auto simp add: translateText_resume_def translateText_try_def
      split: sum.splits sendResult.splits if_splits prod.splits)

lemma translateText_exception:
  "translateText_try text srcLang tgtLang now res = Inl e \<Longrightarrow>
     fst (translateText_resume s text srcLang tgtLang now res) = None"
  by (simp add: translateText_resume_def split: prod.splits)

lemma sentences_example:
  "map_of [(ascii ''sentences'',
           Arr [Obj [(ascii ''trans'', Str (ascii ''Hola ''))],
                Obj [(ascii ''trans'', Str (ascii ''amigo'')), (ascii ''backend'', Num True (ascii ''10''))],
                Obj [(ascii ''src_translit'', Str (ascii ''x''))]]),
          (ascii ''src'', Str (ascii ''en''))] (ascii ''sentences'') =
     Some (Arr [Obj [(ascii ''trans'', Str (ascii ''Hola ''))],
                Obj [(ascii ''trans'', Str (ascii ''amigo'')), (ascii ''backend'', Num True (ascii ''10''))],
                Obj [(ascii ''src_translit'', Str (ascii ''x''))]])"
  "map transOf [Obj [(ascii ''trans'', Str (ascii ''Hola ''))],
                Obj [(ascii ''trans'', Str (ascii ''amigo'')), (ascii ''backend'', Num True (ascii ''10''))],
                Obj [(ascii ''src_translit'', Str (ascii ''x''))]] =
     map Some [ascii ''Hola '', ascii ''amigo'', []]"
  by (simp_all add: ascii_def)

lemma tuples_example:
  "map firstOf [Arr [Str (ascii ''Hola ''), Str (ascii ''Hello ''), Null, Null, Num True (ascii ''10'')],
               Arr [Str (ascii ''amigo''), Str (ascii ''friend'')],
               Arr [Null, Null, Str (ascii ''x'')]] =
     map Some [ascii ''Hola '', ascii ''amigo'', []]"
  by simp

lemma concat_example: "concat [ascii ''Hola '', ascii ''amigo'', []] = ascii ''Hola amigo''"
  by (simp add: ascii_def)

subsection \<open>What the error handler does\<close>

text \<open>
  The two branches of \<open>handleRecognitionError\<close>: a restart after 1000 ms and no error
  message on \<open>no-speech\<close> or \<open>aborted\<close> while the session is active, the error
  message and no restart otherwise; the message for \<open>not-allowed\<close>; and the callback
  of the restart timer.
\<close>

lemma error_policy:
  "(isActive s \<and> (error = ascii ''no-speech'' \<or> error = ascii ''aborted'') \<longrightarrow>
      handleRecognitionError s error = (s, [SetTimeoutRestart 1000])) \<and>
   (\<not> (isActive s \<and> (error = ascii ''no-speech'' \<or> error = ascii ''aborted'')) \<longrightarrow>
      handleRecognitionError s error = (s, [SendError (errorMessageFor error)])) \<and>
   errorMessageFor (ascii ''not-allowed'') = ascii ''Microphone permission denied'' \<and>
   restartCallback s = (s, if recognition s \<noteq> None \<and> isActive s then [EngineStart] else [])"
  by (simp add: handleRecognitionError_def sendErrorMessage_def restartCallback_def Let_def)
     (simp add: errorMessageFor_def ascii_def)

lemma error_policy_example:
  "isActive started \<and>
   handleRecognitionError started (ascii ''no-speech'') = (started, [SetTimeoutRestart 1000]) \<and>
   restartCallback started = (started, [EngineStart]) \<and>
   ascii ''network'' \<noteq> ascii ''no-speech'' \<and> ascii ''network'' \<noteq> ascii ''aborted'' \<and>
   handleRecognitionError started (ascii ''network'') =
     (started, [SendError (ascii ''Network error'')])"
proof -
  have a: "isActive started" by (simp add: started_def)
  have r: "recognition started \<noteq> None" by (simp add: started_def)
  have n: "ascii ''network'' \<noteq> ascii ''no-speech'' \<and> ascii ''network'' \<noteq> ascii ''aborted''"
    by (simp add: ascii_def)
  have m: "errorMessageFor (ascii ''network'') = ascii ''Network error''"
    by (simp add: errorMessageFor_def ascii_def)
  show ?thesis
    using a r n m error_policy [of started "ascii ''no-speech''"]
      error_policy [of started "ascii ''network''"]
    by simp
qed

subsection \<open>What a stop clears\<close>






lemma shown_timer:
  "clearTimer (shown\<lparr>clearTimer := Some 7\<rparr>) = Some 7"
  "overlay (shown\<lparr>clearTimer := Some 7\<rparr>) = overlay shown"
  "lastLineKey (shown\<lparr>clearTimer := Some 7\<rparr>) = lastLineKey shown"
  "historyEntries (shown\<lparr>clearTimer := Some 7\<rparr>) = historyEntries shown"
  by (simp_all add: historyEntries_def blocksOf_def)

section \<open>The claims\<close>

subsection \<open>C1: deduplication of history entries\<close>

text \<open>
  C1, as amended. In every state the controller reaches in which the panel exists, a
  finalized display call adds a history entry, holding the two escaped texts, exactly
  when the key of the pair differs from the stored \<open>lastLineKey\<close>, and then stores the
  key; so a run of finalized display calls commits exactly the pairs whose key differs
  from the key stored before them. Without a panel a display call changes nothing.
  Displaying the same finalized pair twice in a row adds no entry the second time, and
  no display call, final or not, changes an entry that exists: it puts at most one new
  entry in front of them.
\<close>

theorem history_dedup:
  "(overlay (run initial es) \<noteq> None \<longrightarrow>
      (\<exists>new. historyEntries (fst (displayBothLanguages (run initial es) t o' True)) =
                new @ historyEntries (run initial es) \<and>
              map blockTexts new =
                (if lastLineKey (run initial es) = Some (lineKey t o') then []
                 else [(escapeHtml t, escapeHtml o')])) \<and>
      lastLineKey (fst (displayBothLanguages (run initial es) t o' True)) = Some (lineKey t o') \<and>
      map blockTexts (historyEntries (displayFinals (run initial es) ps)) =
        rev (map (\<lambda>(t, o'). (escapeHtml t, escapeHtml o'))
               (committed (lastLineKey (run initial es)) ps)) @
        map blockTexts (historyEntries (run initial es))) \<and>
   (overlay (run initial es) = None \<longrightarrow>
      displayBothLanguages (run initial es) t o' True = (run initial es, [])) \<and>
   historyEntries (fst (displayBothLanguages
       (fst (displayBothLanguages (run initial es) t o' True)) t o' True)) =
     historyEntries (fst (displayBothLanguages (run initial es) t o' True)) \<and>
   (\<exists>new. historyEntries (fst (displayBothLanguages (run initial es) t o' fin)) =
            new @ historyEntries (run initial es) \<and> length new \<le> 1)"
proof -
  let ?s = "run initial es"
  let ?s1 = "fst (displayBothLanguages ?s t o' True)"
  have wf: "wellFormed ?s" by (rule wellFormed_reachable)
  have ct: "clearTimer ?s = None" using wf by (simp add: wellFormed_def)
  have wf1: "wellFormed ?s1" using wf by (rule wellFormed_display)
  have none: "overlay ?s = None \<Longrightarrow> displayBothLanguages ?s t o' fin' = (?s, [])" for fin'
    using ct by (simp add: display_none)
  have a: "overlay ?s \<noteq> None \<longrightarrow>
      (\<exists>new. historyEntries ?s1 = new @ historyEntries ?s \<and>
              map blockTexts new =
                (if lastLineKey ?s = Some (lineKey t o') then []
                 else [(escapeHtml t, escapeHtml o')])) \<and>
      lastLineKey ?s1 = Some (lineKey t o') \<and>
      map blockTexts (historyEntries (displayFinals ?s ps)) =
        rev (map (\<lambda>(t, o'). (escapeHtml t, escapeHtml o')) (committed (lastLineKey ?s) ps)) @
        map blockTexts (historyEntries ?s)"
  proof
    assume o: "overlay ?s \<noteq> None"
    then obtain ov where ov: "overlay ?s = Some ov" by auto
    have h: "\<exists>new. historyEntries ?s1 = new @ historyEntries ?s \<and>
              map blockTexts new =
                (if lastLineKey ?s = Some (lineKey t o') then []
                 else [(escapeHtml t, escapeHtml o')])"
      by (simp add: historyEntries_display [OF wf ov] blockTexts_historyBlock blockTexts_rendered)
    have k: "lastLineKey ?s1 = Some (lineKey t o')"
      by (simp add: lastLineKey_display [OF wf ov])
    show "(\<exists>new. historyEntries ?s1 = new @ historyEntries ?s \<and>
              map blockTexts new =
                (if lastLineKey ?s = Some (lineKey t o') then []
                 else [(escapeHtml t, escapeHtml o')])) \<and>
      lastLineKey ?s1 = Some (lineKey t o') \<and>
      map blockTexts (historyEntries (displayFinals ?s ps)) =
        rev (map (\<lambda>(t, o'). (escapeHtml t, escapeHtml o')) (committed (lastLineKey ?s) ps)) @
        map blockTexts (historyEntries ?s)"
      using h k displayFinals_history [OF wf o, of ps] by blast
  qed
  have b: "overlay ?s = None \<longrightarrow> displayBothLanguages ?s t o' True = (?s, [])"
    using none by blast
  have c: "historyEntries (fst (displayBothLanguages ?s1 t o' True)) = historyEntries ?s1"
  proof (cases "overlay ?s")
    case None
    then show ?thesis by (simp add: none)
  next
    case (Some ov)
    then have "overlay ?s1 \<noteq> None" by (simp add: overlay_display)
    then obtain ov1 where ov1: "overlay ?s1 = Some ov1" by auto
    have "lastLineKey ?s1 = Some (lineKey t o')"
      by (simp add: lastLineKey_display [OF wf Some])
    then show ?thesis by (simp add: historyEntries_display [OF wf1 ov1])
  qed
  have d: "\<exists>new. historyEntries (fst (displayBothLanguages ?s t o' fin)) =
            new @ historyEntries ?s \<and> length new \<le> 1"
  proof (cases "overlay ?s")
    case None
    then show ?thesis by (simp add: none)
  next
    case (Some ov)
    show ?thesis by (simp add: historyEntries_display [OF wf Some])
  qed
  show ?thesis using a b c d by blast
qed

text \<open>
  The theorem after the start command: of the finalized pairs Hola/Hello, Hola/Hello,
  Adios/Bye the panel keeps two entries, the newest first.
\<close>

theorem history_dedup_witness:
  "overlay (run initial [startCommand]) \<noteq> None \<and>
   lastLineKey (run initial [startCommand]) = None \<and>
   map blockTexts (historyEntries (displayFinals (run initial [startCommand])
     [(ascii ''Hola'', ascii ''Hello''), (ascii ''Hola'', ascii ''Hello''),
      (ascii ''Adios'', ascii ''Bye'')])) =
   [(ascii ''Adios'', ascii ''Bye''), (ascii ''Hola'', ascii ''Hello'')] \<and>
   overlay (run initial [startCommand, CloseClicked]) = None \<and>
   displayBothLanguages (run initial [startCommand, CloseClicked])
     (ascii ''Hola'') (ascii ''Hello'') True = (run initial [startCommand, CloseClicked], [])"
proof -
  have n: "overlay (run initial [startCommand, CloseClicked]) = None"
    by (simp only: stopped_state) simp
  have nd: "displayBothLanguages (run initial [startCommand, CloseClicked])
     (ascii ''Hola'') (ascii ''Hello'') True = (run initial [startCommand, CloseClicked], [])"
    using n history_dedup [of "[startCommand, CloseClicked]" "ascii ''Hola''" "ascii ''Hello''"
        "[]" True]
    by blast
  have o: "overlay (run initial [startCommand]) \<noteq> None"
    by (simp only: run_start) (simp add: overlay_started)
  have k: "lastLineKey (run initial [startCommand]) = None"
    by (simp only: run_start) (simp add: started_def)
  have h: "historyEntries (run initial [startCommand]) = []"
    by (simp only: run_start) (simp add: historyEntries_def blocksOf_started)
  have "map blockTexts (historyEntries (displayFinals (run initial [startCommand])
     [(ascii ''Hola'', ascii ''Hello''), (ascii ''Hola'', ascii ''Hello''),
      (ascii ''Adios'', ascii ''Bye'')])) =
     rev (map (\<lambda>(t, o'). (escapeHtml t, escapeHtml o'))
       (committed (lastLineKey (run initial [startCommand]))
          [(ascii ''Hola'', ascii ''Hello''), (ascii ''Hola'', ascii ''Hello''),
           (ascii ''Adios'', ascii ''Bye'')])) @
     map blockTexts (historyEntries (run initial [startCommand]))"
    using o history_dedup [of "[startCommand]" "ascii ''Hola''" "ascii ''Hello''"
        "[(ascii ''Hola'', ascii ''Hello''), (ascii ''Hola'', ascii ''Hello''),
          (ascii ''Adios'', ascii ''Bye'')]" True]
    by blast
  then have "map blockTexts (historyEntries (displayFinals (run initial [startCommand])
     [(ascii ''Hola'', ascii ''Hello''), (ascii ''Hola'', ascii ''Hello''),
      (ascii ''Adios'', ascii ''Bye'')])) =
     [(ascii ''Adios'', ascii ''Bye''), (ascii ''Hola'', ascii ''Hello'')]"
    using k h
    by (simp add: committed_example escapeHtml_plain
        del: displayFinals.simps committed.simps run.simps)
  then show ?thesis using o k n nd by blast
qed

text \<open>
  The claim as written fails once the session is stopped (a translation can settle
  after that): the key differs from the stored one, which is empty, and no entry is
  added, since the handler returns when there is no panel.
\<close>

theorem history_dedup_counterexample:
  "overlay (run initial [startCommand, CloseClicked]) = None \<and>
   lastLineKey (run initial [startCommand, CloseClicked]) \<noteq>
     Some (lineKey (ascii ''Hola'') (ascii ''Hello'')) \<and>
   historyEntries (fst (displayBothLanguages (run initial [startCommand, CloseClicked])
     (ascii ''Hola'') (ascii ''Hello'') True)) = [] \<and>
   lastLineKey (fst (displayBothLanguages (run initial [startCommand, CloseClicked])
     (ascii ''Hola'') (ascii ''Hello'') True)) = None"
  by (simp only: stopped_state)
     (simp add: started_def displayBothLanguages_def clearPendingTimer_def historyEntries_def
        blocksOf_def)

subsection \<open>C2: the end of the capture engine\<close>

text \<open>
  C2, as amended. When \<open>onend\<close> fires while the session is marked active, the handler
  does nothing: the state stays as it is and nothing is emitted. It runs \<open>cleanup\<close>
  only when the session is not active, which leaves the session inactive without
  configuration and key. It never emits a stop command, a status or an error: at most
  the clearing of a timer. In every state the controller reaches the handler changes
  nothing at all, since an inactive controller has nothing left to clean up.
\<close>

theorem onend_cleanup:
  "(isActive s \<longrightarrow> handleRecognitionEnd s = (s, [])) \<and>
   (\<not> isActive s \<longrightarrow>
      handleRecognitionEnd s = cleanup s \<and>
      \<not> isActive (fst (handleRecognitionEnd s)) \<and>
      config (fst (handleRecognitionEnd s)) = None \<and>
      lastLineKey (fst (handleRecognitionEnd s)) = None) \<and>
   (snd (handleRecognitionEnd s) = [] \<or> (\<exists>t. snd (handleRecognitionEnd s) = [ClearTimeout t])) \<and>
   handleRecognitionEnd (run initial es) = (run initial es, [])"
proof -
  have wf: "wellFormed (run initial es)" by (rule wellFormed_reachable)
  have a: "isActive s \<longrightarrow> handleRecognitionEnd s = (s, [])"
    by (simp add: handleRecognitionEnd_def)
  have b: "\<not> isActive s \<longrightarrow>
      handleRecognitionEnd s = cleanup s \<and>
      \<not> isActive (fst (handleRecognitionEnd s)) \<and>
      config (fst (handleRecognitionEnd s)) = None \<and>
      lastLineKey (fst (handleRecognitionEnd s)) = None"
    by (simp add: handleRecognitionEnd_def cleanup_fields)
  have c: "snd (handleRecognitionEnd s) = [] \<or> (\<exists>t. snd (handleRecognitionEnd s) = [ClearTimeout t])"
    using cleanup_effects [of s] by (simp add: handleRecognitionEnd_def)
  have d: "handleRecognitionEnd (run initial es) = (run initial es, [])"
    using cleanup_inactive [OF wf] by (simp add: handleRecognitionEnd_def)
  show ?thesis using a b c d by blast
qed

text \<open>
  The theorem on the started controller, and on the same controller marked inactive
  with its panel still in place.
\<close>

theorem onend_cleanup_witness:
  "isActive started \<and> handleRecognitionEnd started = (started, []) \<and>
   \<not> isActive (started\<lparr>isActive := False\<rparr>) \<and>
   overlay (fst (handleRecognitionEnd (started\<lparr>isActive := False\<rparr>))) = None \<and>
   config (fst (handleRecognitionEnd (started\<lparr>isActive := False\<rparr>))) = None \<and>
   lastLineKey (fst (handleRecognitionEnd (started\<lparr>isActive := False\<rparr>))) = None"
proof -
  have a: "isActive started" by (simp add: started_def)
  have b: "\<not> isActive (started\<lparr>isActive := False\<rparr>)" by simp
  have c: "overlay (fst (cleanup (started\<lparr>isActive := False\<rparr>))) = None"
    by (simp add: started_def readyOverlay_def cleanup_def clearPendingTimer_def
        removeOverlay_def)
  show ?thesis
    using a b c onend_cleanup [of started "[]"]
      onend_cleanup [of "started\<lparr>isActive := False\<rparr>" "[]"]
    by metis
qed

text \<open>
  The claim as written fails on the started controller: after \<open>onend\<close> the session is
  still active, with its panel and its configuration.
\<close>

theorem onend_active_counterexample:
  "isActive (run initial [startCommand]) \<and>
   run initial [startCommand, OnEnd] = run initial [startCommand] \<and>
   overlay (run initial [startCommand, OnEnd]) \<noteq> None \<and>
   config (run initial [startCommand, OnEnd]) \<noteq> None"
proof -
  have "run initial [startCommand, OnEnd] = fst (handleRecognitionEnd started)"
    using run_start by simp
  then have "run initial [startCommand, OnEnd] = started"
    by (simp add: handleRecognitionEnd_def started_def)
  then show ?thesis by (simp only: run_start) (simp add: started_def)
qed

subsection \<open>C3: errors of the capture engine\<close>

text \<open>
  C3, where the code departs from the claim. The claim has the session torn down on
  every error other than \<open>no-speech\<close> and \<open>aborted\<close>. On the started controller the
  handler reports \<open>not-allowed\<close> as \<open>Microphone permission denied\<close> and leaves the
  controller as it is; after the \<open>onend\<close> that follows, the session is still active,
  with the \<open>Ready\<close> panel and the configuration in place. The sibling error path, a
  start on a host without a capture engine, reports its error and cleans up: the
  session is inactive, the panel and the configuration are gone.
\<close>

theorem error_teardown_missing:
  "step (run initial [startCommand]) (OnError (ascii ''not-allowed'')) =
     (run initial [startCommand], [SendError (ascii ''Microphone permission denied'')]) \<and>
   run initial [startCommand, OnError (ascii ''not-allowed''), OnEnd] =
     run initial [startCommand] \<and>
   isActive (run initial [startCommand, OnError (ascii ''not-allowed''), OnEnd]) \<and>
   overlay (run initial [startCommand, OnError (ascii ''not-allowed''), OnEnd]) =
     Some readyOverlay \<and>
   config (run initial [startCommand, OnError (ascii ''not-allowed''), OnEnd]) =
     Some exampleConfig \<and>
   snd (startRecognition (run initial [startCommand]) False exampleConfig) =
     [SendError (ascii ''Speech Recognition API is not supported in this browser'')] \<and>
   \<not> isActive (fst (startRecognition (run initial [startCommand]) False exampleConfig)) \<and>
   overlay (fst (startRecognition (run initial [startCommand]) False exampleConfig)) = None \<and>
   config (fst (startRecognition (run initial [startCommand]) False exampleConfig)) = None"
  by code_simp

subsection \<open>C4: stopping twice\<close>




subsection \<open>C5: short interim results\<close>

text \<open>
  C5. When the last slot of a recognition result is not final and its transcript,
  trimmed, is shorter than 5 code units, the handler returns before it calls
  \<open>translateText\<close>: no translation request is sent, nothing awaits a translation, and
  the controller, its panel included, is left as it is.
\<close>

theorem short_interim_dropped:
  "results \<noteq> [] \<Longrightarrow> alternatives (last results) = alt # alts \<Longrightarrow>
   \<not> isFinal (last results) \<Longrightarrow> length (trim (transcript alt)) < 5 \<Longrightarrow>
     handleRecognitionResult_begin s results = (None, []) \<and>
     step s (OnResult results) = (s, [])"
  by (simp add: handleRecognitionResult_begin_def split: option.splits)

text \<open>The theorem at the interim transcript \<open>hi\<close> between blanks, trimmed length 2.\<close>

theorem short_interim_dropped_witness:
  "shortInterim \<noteq> [] \<and>
   alternatives (last shortInterim) = [\<lparr> transcript = ascii ''  hi  '', confidence = 0.5 \<rparr>] \<and>
   \<not> isFinal (last shortInterim) \<and>
   length (trim (ascii ''  hi  '')) = 2 \<and>
   handleRecognitionResult_begin started shortInterim = (None, []) \<and>
   step started (OnResult shortInterim) = (started, [])"
proof -
  have a: "shortInterim \<noteq> []" by (simp add: shortInterim_def)
  have b: "alternatives (last shortInterim) =
      [\<lparr> transcript = ascii ''  hi  '', confidence = 0.5 \<rparr>]"
    by (simp add: shortInterim_def)
  have c: "\<not> isFinal (last shortInterim)" by (simp add: shortInterim_def)
  have d: "length (trim (ascii ''  hi  '')) = 2"
    by (simp add: trim_def ascii_def isWhiteSpace_def)
  have e: "length (trim (transcript \<lparr> transcript = ascii ''  hi  '', confidence = 0.5 \<rparr>)) < 5"
    using d by simp
  show ?thesis
    using a b c d short_interim_dropped [OF a b c e, of started] by simp
qed

subsection \<open>C6: the two response shapes\<close>

text \<open>
  C6. On an answer \<open>{ success: true, data }\<close>: when \<open>data\<close> is an object whose
  \<open>sentences\<close> is an array of sentences, the translated text is the concatenation, in
  order, of their \<open>trans\<close> fields; when \<open>data\<close> is an array whose first element is an
  array of tuples, it is the concatenation of the first elements of the tuples; in both
  cases \<open>translateText\<close> returns \<open>null\<close> when that text is empty and the result with
  that text otherwise. On \<open>data\<close> of neither shape it returns \<open>null\<close>. Whatever the
  channel gives, a result that is not \<open>null\<close> holds a non-empty translated text, and an
  exception thrown while the response is read ends in \<open>null\<close>, not in an exception.
\<close>

theorem translateText_shapes:
  "(map_of kvs (ascii ''sentences'') = Some (Arr ss) \<and> map transOf ss = map Some ts \<longrightarrow>
      translateText_resume s orig srcLang tgtLang now (Resolved (okResponse (Obj kvs))) =
        (if concat ts = [] then None
         else Some \<lparr> originalText = orig, translatedText = concat ts, sourceLang = srcLang,
                targetLang = tgtLang, timestamp = now \<rparr>, s, [])) \<and>
   (map firstOf items = map Some ts \<longrightarrow>
      translateText_resume s orig srcLang tgtLang now
          (Resolved (okResponse (Arr (Arr items # rest)))) =
        (if concat ts = [] then None
         else Some \<lparr> originalText = orig, translatedText = concat ts, sourceLang = srcLang,
                targetLang = tgtLang, timestamp = now \<rparr>, s, [])) \<and>
   (\<not> sentencesShape d \<and> \<not> tuplesShape d \<longrightarrow>
      translateText_resume s orig srcLang tgtLang now (Resolved (okResponse d)) = (None, s, [])) \<and>
   (fst (translateText_resume s orig srcLang tgtLang now res) = Some r \<longrightarrow>
      translatedText r \<noteq> [] \<and> originalText r = orig) \<and>
   (translateText_try orig srcLang tgtLang now res = Inl e \<longrightarrow>
      fst (translateText_resume s orig srcLang tgtLang now res) = None)"
proof -
  have a: "map_of kvs (ascii ''sentences'') = Some (Arr ss) \<and> map transOf ss = map Some ts \<longrightarrow>
      translateText_resume s orig srcLang tgtLang now (Resolved (okResponse (Obj kvs))) =
        (if concat ts = [] then None
         else Some \<lparr> originalText = orig, translatedText = concat ts, sourceLang = srcLang,
                targetLang = tgtLang, timestamp = now \<rparr>, s, [])"
    by (auto simp add: translateText_ok extract_sentences simp del: concat_eq_Nil_conv)
  have b: "map firstOf items = map Some ts \<longrightarrow>
      translateText_resume s orig srcLang tgtLang now
          (Resolved (okResponse (Arr (Arr items # rest)))) =
        (if concat ts = [] then None
         else Some \<lparr> originalText = orig, translatedText = concat ts, sourceLang = srcLang,
                targetLang = tgtLang, timestamp = now \<rparr>, s, [])"
    by (auto simp add: translateText_ok extract_tuples simp del: concat_eq_Nil_conv)
  have c: "\<not> sentencesShape d \<and> \<not> tuplesShape d \<longrightarrow>
      translateText_resume s orig srcLang tgtLang now (Resolved (okResponse d)) = (None, s, [])"
    using extract_other [of d] by (auto simp add: translateText_ok)
  have d: "fst (translateText_resume s orig srcLang tgtLang now res) = Some r \<longrightarrow>
      translatedText r \<noteq> [] \<and> originalText r = orig"
    using translateText_nonempty by blast
  have e: "translateText_try orig srcLang tgtLang now res = Inl e \<longrightarrow>
      fst (translateText_resume s orig srcLang tgtLang now res) = None"
    using translateText_exception by blast
  show ?thesis using a b c d e by blast
qed

text \<open>
  The theorem at two answers for \<open>Hello friend\<close>, one in each shape, at a \<open>data\<close>
  that is a string, and at a \<open>data\<close> that is \<open>null\<close>, where reading \<open>sentences\<close>
  throws.
\<close>

theorem translateText_shapes_witness:
  "translateText_resume started (ascii ''Hello friend'') (ascii ''en'') (ascii ''es'') 7
     (Resolved (okResponse sentencesData)) =
     (Some \<lparr> originalText = ascii ''Hello friend'', translatedText = ascii ''Hola amigo'',
         sourceLang = ascii ''en'', targetLang = ascii ''es'', timestamp = 7 \<rparr>, started, []) \<and>
   translateText_resume started (ascii ''Hello friend'') (ascii ''en'') (ascii ''es'') 7
     (Resolved (okResponse tuplesData)) =
     (Some \<lparr> originalText = ascii ''Hello friend'', translatedText = ascii ''Hola amigo'',
         sourceLang = ascii ''en'', targetLang = ascii ''es'', timestamp = 7 \<rparr>, started, []) \<and>
   \<not> sentencesShape (Str (ascii ''busy'')) \<and> \<not> tuplesShape (Str (ascii ''busy'')) \<and>
   translateText_resume started (ascii ''Hello friend'') (ascii ''en'') (ascii ''es'') 7
     (Resolved (okResponse (Str (ascii ''busy'')))) = (None, started, []) \<and>
   translateText_try (ascii ''Hello friend'') (ascii ''en'') (ascii ''es'') 7
     (Resolved (okResponse Null)) = Inl TypeError \<and>
   fst (translateText_resume started (ascii ''Hello friend'') (ascii ''en'') (ascii ''es'') 7
     (Resolved (okResponse Null))) = None \<and>
   ascii ''Hola amigo'' \<noteq> []"
proof -
  have ne: "concat [ascii ''Hola '', ascii ''amigo'', []] \<noteq> []" by (simp add: ascii_def)
  have n: "\<not> sentencesShape (Str (ascii ''busy'')) \<and> \<not> tuplesShape (Str (ascii ''busy''))"
    by simp
  have t: "translateText_try (ascii ''Hello friend'') (ascii ''en'') (ascii ''es'') 7
     (Resolved (okResponse Null)) = Inl TypeError"
    by (simp add: translateText_try_def okResponse_def extractTranslatedText_def ascii_def)
  note th = translateText_shapes [where s = started and orig = "ascii ''Hello friend''"
      and srcLang = "ascii ''en''" and tgtLang = "ascii ''es''" and now = 7
      and ts = "[ascii ''Hola '', ascii ''amigo'', []]"]
  have a: "translateText_resume started (ascii ''Hello friend'') (ascii ''en'') (ascii ''es'') 7
     (Resolved (okResponse sentencesData)) =
     (Some \<lparr> originalText = ascii ''Hello friend'', translatedText = ascii ''Hola amigo'',
         sourceLang = ascii ''en'', targetLang = ascii ''es'', timestamp = 7 \<rparr>, started, [])"
    unfolding sentencesData_def
    using ne sentences_example th [THEN conjunct1, rule_format, OF conjI,
        OF sentences_example(1) sentences_example(2)]
    by (simp only: concat_example if_False)
  have b: "translateText_resume started (ascii ''Hello friend'') (ascii ''en'') (ascii ''es'') 7
     (Resolved (okResponse tuplesData)) =
     (Some \<lparr> originalText = ascii ''Hello friend'', translatedText = ascii ''Hola amigo'',
         sourceLang = ascii ''en'', targetLang = ascii ''es'', timestamp = 7 \<rparr>, started, [])"
    unfolding tuplesData_def
    using ne th [THEN conjunct2, THEN conjunct1, rule_format, OF tuples_example,
        of "[Null, Str (ascii ''en'')]"]
    by (simp only: concat_example if_False)
  have c: "translateText_resume started (ascii ''Hello friend'') (ascii ''en'') (ascii ''es'') 7
     (Resolved (okResponse (Str (ascii ''busy'')))) = (None, started, [])"
    using n th [where d = "Str (ascii ''busy'')"] by blast
  have d: "fst (translateText_resume started (ascii ''Hello friend'') (ascii ''en'') (ascii ''es'') 7
     (Resolved (okResponse Null))) = None"
    using t th [where res = "Resolved (okResponse Null)" and e = TypeError] by blast
  have f: "fst (translateText_resume started (ascii ''Hello friend'') (ascii ''en'')
      (ascii ''es'') 7 (Resolved (okResponse sentencesData))) =
     Some \<lparr> originalText = ascii ''Hello friend'', translatedText = ascii ''Hola amigo'',
         sourceLang = ascii ''en'', targetLang = ascii ''es'', timestamp = 7 \<rparr>"
    by (simp only: a fst_conv)
  have g: "ascii ''Hola amigo'' \<noteq> []"
    using th [where res = "Resolved (okResponse sentencesData)"
        and r = "\<lparr> originalText = ascii ''Hello friend'', translatedText = ascii ''Hola amigo'',
         sourceLang = ascii ''en'', targetLang = ascii ''es'', timestamp = 7 \<rparr>",
        THEN conjunct2, THEN conjunct2, THEN conjunct2, THEN conjunct1, rule_format, OF f]
    by simp
  show ?thesis using a b n c t d g by blast
qed

subsection \<open>C7: no response on the messaging channel\<close>

text \<open>
  C7, as amended. When \<open>sendMessage\<close> gives no response (any falsy value),
  \<open>translateText\<close> returns \<open>null\<close> and that is all: the controller is unchanged,
  nothing is emitted, and the handler that awaited it leaves the session as it was.
  The session is stopped when the call throws an error whose message contains
  \<open>Extension context invalidated\<close>: then \<open>translateText\<close> runs \<open>stopRecognition\<close>
  and returns \<open>null\<close>.
\<close>

theorem no_response_returns_null:
  "(\<not> truthy response \<longrightarrow>
      translateText_resume s text srcLang tgtLang now (Resolved response) = (None, s, []) \<and>
      handleRecognitionResult_resume s p now (Resolved response) = (s, [])) \<and>
   (js_includes m (ascii ''Extension context invalidated'') \<longrightarrow>
      translateText_resume s text srcLang tgtLang now (Rejected m) =
        (None, fst (stopRecognition s), snd (stopRecognition s)) \<and>
      handleRecognitionResult_resume s p now (Rejected m) = stopRecognition s \<and>
      \<not> isActive (fst (handleRecognitionResult_resume s p now (Rejected m))))"
  by (simp add: translateText_no_response translateText_invalidated
      handleRecognitionResult_resume_def stopRecognition_fields)

text \<open>
  The theorem on the started controller, at the response \<open>undefined\<close> and at a thrown
  error with the phrase in its message.
\<close>

theorem no_response_returns_null_witness:
  "\<not> truthy Undefined \<and> isActive started \<and>
   translateText_resume started (ascii ''Hello there'') (ascii ''en'') (ascii ''es'') 0
     (Resolved Undefined) = (None, started, []) \<and>
   js_includes (ascii ''Error: Extension context invalidated.'')
     (ascii ''Extension context invalidated'') \<and>
   \<not> isActive (fst (handleRecognitionResult_resume started pendingHello 0
     (Rejected (ascii ''Error: Extension context invalidated.''))))"
proof -
  have a: "\<not> truthy Undefined" by simp
  have b: "isActive started" by (simp add: started_def)
  show ?thesis
    using a b includes_example
      no_response_returns_null [of Undefined started "ascii ''Hello there''" "ascii ''en''"
        "ascii ''es''" 0 pendingHello "ascii ''Error: Extension context invalidated.''"]
    by blast
qed

text \<open>
  The claim as written fails on the started controller: after a translation settles
  with no response the session is still active.
\<close>

theorem no_response_counterexample:
  "translateText_resume (run initial [startCommand]) (ascii ''Hello there'') (ascii ''en'')
     (ascii ''es'') 0 (Resolved Undefined) = (None, run initial [startCommand], []) \<and>
   run initial [startCommand, TranslationSettled pendingHello 0 (Resolved Undefined)] =
     run initial [startCommand] \<and>
   isActive (run initial [startCommand, TranslationSettled pendingHello 0 (Resolved Undefined)])"
proof -
  have t: "translateText_resume started (ascii ''Hello there'') (ascii ''en'')
     (ascii ''es'') 0 (Resolved Undefined) = (None, started, [])"
    by (simp add: translateText_no_response)
  have "run initial [startCommand, TranslationSettled pendingHello 0 (Resolved Undefined)] =
      fst (handleRecognitionResult_resume started pendingHello 0 (Resolved Undefined))"
    using run_start by simp
  then have r: "run initial [startCommand, TranslationSettled pendingHello 0 (Resolved Undefined)] =
      started"
    by (simp add: handleRecognitionResult_resume_def translateText_no_response)
  show ?thesis
    by (simp only: r) (simp only: run_start t, simp add: started_def)
qed

subsection \<open>C8: dragging the panel\<close>

text \<open>
  C8, as amended. On a pointer-move while dragging, with a panel, the handler sets the
  panel's left and top to the pointer coordinates minus the drag offset, clamped as
  \<open>max(0, min(v, viewport - panel))\<close>: so \<open>0 \<le> left \<le> max(0, viewportWidth - panelWidth)\<close>
  and \<open>0 \<le> top \<le> max(0, viewportHeight - panelHeight)\<close> for any pointer coordinates,
  and the position lies in the rectangle of the specification whenever the panel is not
  larger than the viewport.
\<close>

theorem drag_clamped:
  "isDragging s \<and> overlay s \<noteq> None \<longrightarrow>
     (\<exists>l t. panelPosition (fst (handleDragMove s x y iw ih ow oh)) = Some (l, t) \<and>
        l = max 0 (min (x - fst (dragOffset s)) (iw - ow)) \<and>
        t = max 0 (min (y - snd (dragOffset s)) (ih - oh)) \<and>
        0 \<le> l \<and> l \<le> max 0 (iw - ow) \<and> 0 \<le> t \<and> t \<le> max 0 (ih - oh) \<and>
        (ow \<le> iw \<and> oh \<le> ih \<longrightarrow> withinViewport (l, t) iw ih ow oh))"
  by (auto simp add: handleDragMove_def panelPosition_def withinViewport_def Let_def)

text \<open>
  The theorem for a pointer far outside a 1280 by 720 viewport, with a 932 by 200
  panel: the panel stops at the right and at the top edge.
\<close>

theorem drag_clamped_witness:
  "isDragging (run initial [startCommand, pointerDown]) \<and>
   overlay (run initial [startCommand, pointerDown]) \<noteq> None \<and>
   panelPosition (fst (handleDragMove (run initial [startCommand, pointerDown])
     2000 (-50) 1280 720 932 200)) = Some (348, 0) \<and>
   withinViewport (348, 0) 1280 720 932 200"
proof -
  let ?s = "run initial [startCommand, pointerDown]"
  have a: "isDragging ?s \<and> overlay ?s \<noteq> None"
    by (simp only: dragging_state) (simp add: started_def)
  have d: "dragOffset ?s = (10, 10)"
    by (simp only: dragging_state) simp
  obtain l t where p: "panelPosition (fst (handleDragMove ?s 2000 (-50) 1280 720 932 200)) = Some (l, t)"
      "l = max 0 (min (2000 - fst (dragOffset ?s)) (1280 - 932))"
      "t = max 0 (min (-50 - snd (dragOffset ?s)) (720 - 200))"
      "(932::real) \<le> 1280 \<and> (200::real) \<le> 720 \<longrightarrow> withinViewport (l, t) 1280 720 932 200"
    using a drag_clamped [of ?s 2000 "-50" 1280 720 932 200] by blast
  have l: "l = 348" using p(2) by (simp only: d) simp
  have t: "t = 0" using p(3) by (simp only: d) simp
  show ?thesis using a p(1) p(4) l t by simp
qed

text \<open>
  The claim as written fails when the panel is wider than the viewport (its width is
  100% plus padding, so 832 px in an 800 px viewport): the left edge is clamped to 0,
  which is not in the empty interval from 0 to -32.
\<close>

theorem drag_clamp_counterexample:
  "isDragging (run initial [startCommand, pointerDown]) \<and>
   panelPosition (fst (handleDragMove (run initial [startCommand, pointerDown])
     100 100 800 600 832 200)) = Some (0, 90) \<and>
   \<not> withinViewport (0, 90) 800 600 832 200"
  by (simp only: dragging_state)
     (simp add: handleDragMove_def panelPosition_def withinViewport_def started_def
        readyOverlay_def Let_def)

subsection \<open>C9: one live block\<close>

text \<open>
  C9. In every state the controller reaches the panel holds at most one live block.
  A display call keeps that bound from any state: it reuses the live block when the
  panel has one, and creates one only when the panel has none.
\<close>

theorem live_block_unique:
  "length (liveBlocks (run initial es)) \<le> 1 \<and>
   (length (liveBlocks s) \<le> 1 \<longrightarrow>
      length (liveBlocks (fst (displayBothLanguages s t o' fin))) \<le> 1) \<and>
   (liveBlocks s \<noteq> [] \<longrightarrow>
      length (liveBlocks (fst (displayBothLanguages s t o' fin))) = length (liveBlocks s)) \<and>
   (liveBlocks s = [] \<and> overlay s \<noteq> None \<longrightarrow>
      length (liveBlocks (fst (displayBothLanguages s t o' fin))) = 1)"
proof -
  have a: "length (liveBlocks (run initial es)) \<le> 1"
    using wellFormed_reachable by (rule live_count_wf)
  have n: "overlay s = None \<Longrightarrow> liveBlocks s = []"
    by (simp add: liveBlocks_def blocksOf_def)
  show ?thesis using a n by (auto simp add: live_count_display)
qed

text \<open>
  The theorem on the started controller: the first display creates the live block, the
  second one reuses it.
\<close>

theorem live_block_unique_witness:
  "length (liveBlocks (run initial [startCommand, pointerDown])) \<le> 1 \<and>
   length (liveBlocks started) \<le> 1 \<and>
   length (liveBlocks (fst (displayBothLanguages started (ascii ''Hola'') (ascii ''Hello'') False))) \<le> 1 \<and>
   liveBlocks started = [] \<and> overlay started \<noteq> None \<and>
   length (liveBlocks (fst (displayBothLanguages started (ascii ''Hola'') (ascii ''Hello'') False))) = 1 \<and>
   length (liveBlocks (fst (displayBothLanguages
     (fst (displayBothLanguages started (ascii ''Hola'') (ascii ''Hello'') False))
     (ascii ''Hola amigo'') (ascii ''Hello friend'') True))) = 1"
proof -
  let ?s1 = "fst (displayBothLanguages started (ascii ''Hola'') (ascii ''Hello'') False)"
  have l: "liveBlocks started = []" by (simp add: liveBlocks_def blocksOf_started)
  have o: "overlay started \<noteq> None" by (simp add: overlay_started)
  have one: "length (liveBlocks ?s1) = 1"
    using l o live_block_unique [of "[]" started "ascii ''Hola''" "ascii ''Hello''" False]
    by blast
  then have ne: "liveBlocks ?s1 \<noteq> []" by auto
  have two: "length (liveBlocks (fst (displayBothLanguages ?s1
     (ascii ''Hola amigo'') (ascii ''Hello friend'') True))) = 1"
    using ne one live_block_unique [of "[]" ?s1 "ascii ''Hola amigo''" "ascii ''Hello friend''" True]
    by metis
  have r: "length (liveBlocks (run initial [startCommand, pointerDown])) \<le> 1"
    using live_block_unique [of "[startCommand, pointerDown]" started "ascii ''Hola''"
        "ascii ''Hello''" False]
    by blast
  have z: "length (liveBlocks started) \<le> 1" using l by simp
  have k: "length (liveBlocks ?s1) \<le> 1"
    using z live_block_unique [of "[]" started "ascii ''Hola''" "ascii ''Hello''" False]
    by blast
  show ?thesis using r z k l o one two by blast
qed

subsection \<open>C10: escaping of displayed text\<close>

text \<open>
  C10, as amended. \<open>escapeHtml\<close> replaces every \<open>&\<close> by \<open>&amp;\<close>, every U+00A0 by
  \<open>&nbsp;\<close>, every \<open><\<close> by \<open>&lt;\<close> and every \<open>>\<close> by \<open>&gt;\<close>, character by
  character; on a string without U+00A0 this is the three-way replacement of the
  specification. Its result contains neither \<open><\<close> nor \<open>>\<close>. In every state the
  controller reaches, a display call on an existing panel leaves one live block whose
  two texts are the escaped translated and the escaped original text, and no block of
  the panel holds \<open><\<close> or \<open>>\<close> in its texts.
\<close>

theorem escapeHtml_escapes:
  "escapeHtml s = concat (map escapeChar s) \<and>
   (0xA0 \<notin> set s \<longrightarrow> escapeHtml s = escapeHtml_spec s) \<and>
   noMarkup (escapeHtml s) \<and>
   (overlay (run initial es) \<noteq> None \<longrightarrow>
      map blockTexts (liveBlocks (fst (displayBothLanguages (run initial es) t o' fin))) =
        [(escapeHtml t, escapeHtml o')]) \<and>
   list_all escapedBlock (blocksOf (run initial es))"
proof -
  have wf: "wellFormed (run initial es)" by (rule wellFormed_reachable)
  have a: "escapeHtml s = concat (map escapeChar s)" by (rule escapeHtml_chars)
  have b: "0xA0 \<notin> set s \<longrightarrow> escapeHtml s = escapeHtml_spec s"
    by (simp add: escapeHtml_spec_eq)
  have c: "noMarkup (escapeHtml s)" by (rule noMarkup_escapeHtml)
  have d: "overlay (run initial es) \<noteq> None \<longrightarrow>
      map blockTexts (liveBlocks (fst (displayBothLanguages (run initial es) t o' fin))) =
        [(escapeHtml t, escapeHtml o')]"
    using wf by (auto simp add: liveBlocks_display blockTexts_rendered)
  have e: "list_all escapedBlock (blocksOf (run initial es))"
    using wf by (simp add: wellFormed_def)
  show ?thesis using a b c d e by simp
qed

text \<open>
  The theorem at the string \<open>a<b & c>d\<close> and at a final display of
  \<open><i>Hola</i>\<close> / \<open>Hello\<close> after the start command.
\<close>

lemma escapeHtml_example: "escapeHtml (ascii ''a<b & c>d'') = ascii ''a&lt;b &amp; c&gt;d''"
  by (simp add: escapeHtml_chars escapeChar_def ascii_def)

theorem escapeHtml_escapes_witness:
  "0xA0 \<notin> set (ascii ''a<b & c>d'') \<and>
   escapeHtml (ascii ''a<b & c>d'') = ascii ''a&lt;b &amp; c&gt;d'' \<and>
   escapeHtml_spec (ascii ''a<b & c>d'') = ascii ''a&lt;b &amp; c&gt;d'' \<and>
   overlay (run initial [startCommand]) \<noteq> None \<and>
   map blockTexts (liveBlocks (fst (displayBothLanguages (run initial [startCommand])
     (ascii ''<i>Hola</i>'') (ascii ''Hello'') True))) =
     [(ascii ''&lt;i&gt;Hola&lt;/i&gt;'', ascii ''Hello'')]"
proof -
  have n: "0xA0 \<notin> set (ascii ''a<b & c>d'')" by (simp add: ascii_def)
  have o: "overlay (run initial [startCommand]) \<noteq> None"
    by (simp only: run_start) (simp add: overlay_started)
  have e1: "escapeHtml (ascii ''<i>Hola</i>'') = ascii ''&lt;i&gt;Hola&lt;/i&gt;''"
    by (simp add: escapeHtml_chars escapeChar_def ascii_def)
  have e2: "escapeHtml (ascii ''Hello'') = ascii ''Hello''"
    by (simp add: escapeHtml_chars escapeChar_def ascii_def)
  note th = escapeHtml_escapes [of "ascii ''a<b & c>d''" "[startCommand]"
      "ascii ''<i>Hola</i>''" "ascii ''Hello''" True]
  have s: "escapeHtml_spec (ascii ''a<b & c>d'') = ascii ''a&lt;b &amp; c&gt;d''"
    using th n escapeHtml_example by metis
  have d: "map blockTexts (liveBlocks (fst (displayBothLanguages (run initial [startCommand])
     (ascii ''<i>Hola</i>'') (ascii ''Hello'') True))) =
     [(ascii ''&lt;i&gt;Hola&lt;/i&gt;'', ascii ''Hello'')]"
    using th o e1 e2 by metis
  show ?thesis using n o s d escapeHtml_example by blast
qed

text \<open>
  The claim as written fails at the one-character string U+00A0, which the
  serialisation turns into \<open>&nbsp;\<close> and the three-way replacement leaves alone.
\<close>

theorem escapeHtml_nbsp_counterexample:
  "escapeHtml [0xA0] = ascii ''&nbsp;'' \<and> escapeHtml_spec [0xA0] = [0xA0] \<and>
   escapeHtml [0xA0] \<noteq> escapeHtml_spec [0xA0]"
  by (simp add: escapeHtml_chars escapeChar_def escapeHtml_spec_def replaceAll_def entity_codes)

end
